theory Spec2Isabelle
  imports Complex_Main
begin

section \<open>Dense vectors and matrices\<close>

text \<open>
  The filter of \<^verbatim>\<open>filter-kalman/kalman.cpp\<close> works on Eigen's dense types: a
  \<^verbatim>\<open>Matrix\<close> of run-time size, a \<^verbatim>\<open>StateVector\<close> of 12 doubles and a
  \<^verbatim>\<open>PoseVector\<close> of 6 doubles.  A vector is a list of reals, a matrix the list of its
  rows.  Arithmetic is exact: a double is read as the real number it stands for, so rounding,
  overflow to infinity and NaN are outside this reading.  The deadzone filter, whose output is
  compared with its input, is also given in double precision, in a section of its own.  Eigen's operators demand
  operands of matching sizes (an assertion otherwise); every call below is made on operands
  whose sizes match, and on other operands the list functions truncate to the shorter one.
\<close>

type_synonym Vector = "real list"
type_synonym Matrix = "real list list"

definition Zero_v :: "nat \<Rightarrow> Vector" where
  "Zero_v n = replicate n 0"

definition Constant_v :: "nat \<Rightarrow> real \<Rightarrow> Vector" where
  "Constant_v n x = replicate n x"

definition Zero_m :: "nat \<Rightarrow> nat \<Rightarrow> Matrix" where
  "Zero_m r c = replicate r (replicate c 0)"

definition cols_m :: "Matrix \<Rightarrow> nat" where
  "cols_m M = (case M of [] \<Rightarrow> 0 | r # _ \<Rightarrow> length r)"

definition column :: "Matrix \<Rightarrow> nat \<Rightarrow> Vector" where
  "column M j = map (\<lambda>r. r ! j) M"

definition dot :: "Vector \<Rightarrow> Vector \<Rightarrow> real" where
  "dot u v = sum_list (map2 (*) u v)"

definition transpose_m :: "Matrix \<Rightarrow> Matrix" where
  "transpose_m M = map (column M) [0..<cols_m M]"

definition mat_mul :: "Matrix \<Rightarrow> Matrix \<Rightarrow> Matrix" where
  "mat_mul A B = map (\<lambda>r. map (\<lambda>j. dot r (column B j)) [0..<cols_m B]) A"

definition mat_vec :: "Matrix \<Rightarrow> Vector \<Rightarrow> Vector" where
  "mat_vec A v = map (\<lambda>r. dot r v) A"

definition vec_add :: "Vector \<Rightarrow> Vector \<Rightarrow> Vector" where
  "vec_add u v = map2 (+) u v"

definition vec_sub :: "Vector \<Rightarrow> Vector \<Rightarrow> Vector" where
  "vec_sub u v = map2 (-) u v"

definition vec_scale :: "Vector \<Rightarrow> real \<Rightarrow> Vector" where
  "vec_scale v a = map (\<lambda>x. x * a) v"

definition mat_add :: "Matrix \<Rightarrow> Matrix \<Rightarrow> Matrix" where
  "mat_add A B = map2 vec_add A B"

definition mat_sub :: "Matrix \<Rightarrow> Matrix \<Rightarrow> Matrix" where
  "mat_sub A B = map2 vec_sub A B"

definition smult :: "real \<Rightarrow> Matrix \<Rightarrow> Matrix" where
  "smult a M = map (map ((*) a)) M"

definition outer :: "Vector \<Rightarrow> Vector \<Rightarrow> Matrix" where
  \<comment> \<open>\<^verbatim>\<open>u * v.transpose()\<close> for column vectors\<close>
  "outer u v = map (\<lambda>x. map (\<lambda>y. x * y) v) u"

definition diagonal :: "Matrix \<Rightarrow> Vector" where
  "diagonal M = map (\<lambda>i. M ! i ! i) [0..<min (length M) (cols_m M)]"

definition trace_m :: "Matrix \<Rightarrow> real" where
  "trace_m M = sum_list (diagonal M)"

definition head :: "nat \<Rightarrow> Vector \<Rightarrow> Vector" where
  "head n v = take n v"

definition set_elem :: "Matrix \<Rightarrow> nat \<Rightarrow> nat \<Rightarrow> real \<Rightarrow> Matrix" where
  \<comment> \<open>\<^verbatim>\<open>M(i, j) = x\<close>\<close>
  "set_elem M i j x = M[i := (M ! i)[j := x]]"

definition cwiseMin :: "Vector \<Rightarrow> Vector \<Rightarrow> Vector" where
  "cwiseMin u v = map2 min u v"

definition cwiseSqrt :: "Vector \<Rightarrow> Vector" where
  "cwiseSqrt v = map sqrt v"

definition cwiseNotEqual_any :: "Vector \<Rightarrow> Vector \<Rightarrow> bool" where
  \<comment> \<open>\<^verbatim>\<open>u.cwiseNotEqual(v).any()\<close>\<close>
  "cwiseNotEqual_any u v = list_ex (\<lambda>(x, y). x \<noteq> y) (zip u v)"

definition std_min :: "real \<Rightarrow> real \<Rightarrow> real" where
  \<comment> \<open>\<^verbatim>\<open>std::min(a, b)\<close>: \<^verbatim>\<open>(b < a) ? b : a\<close>\<close>
  "std_min a b = (if b < a then b else a)"

definition std_max :: "real \<Rightarrow> real \<Rightarrow> real" where
  \<comment> \<open>\<^verbatim>\<open>std::max(a, b)\<close>: \<^verbatim>\<open>(a < b) ? b : a\<close>\<close>
  "std_max a b = (if a < b then b else a)"

definition pow_d :: "real \<Rightarrow> real \<Rightarrow> real" where
  \<comment> \<open>\<^verbatim>\<open>pow(x, y)\<close> of the C library on a base \<open>x \<ge> 0\<close> and an exponent \<open>y \<ge> 0\<close>:
      \<^verbatim>\<open>pow(x, 0)\<close> is 1 for every \<open>x\<close>, \<^verbatim>\<open>pow(0, y)\<close> is 0 for \<open>y > 0\<close>\<close>
  "pow_d x y = (if y = 0 then 1 else x powr y)"


section \<open>The linear Kalman filter\<close>

text \<open>
  Modelled from the spec: \<^verbatim>\<open>NUM_STATE_DOF\<close> and \<^verbatim>\<open>NUM_MEASUREMENT_DOF\<close> are declared
  in \<^verbatim>\<open>kalman.h\<close>; the spec gives the state dimension NS as 12 and the measurement dimension
  NZ as 6, which is what the index arithmetic of \<^verbatim>\<open>kalman.cpp\<close> (rows \<open>i\<close> and \<open>i + 6\<close> for
  \<open>i < 6\<close>) relies on.
\<close>

definition NUM_STATE_DOF :: nat where
  "NUM_STATE_DOF = 12"

definition NUM_MEASUREMENT_DOF :: nat where
  "NUM_MEASUREMENT_DOF = 6"

record KalmanFilter =
  measurement_noise_cov :: Matrix
  process_noise_cov :: Matrix
  kalman_gain :: Matrix
  measurement_matrix :: Matrix
  state_cov :: Matrix
  state_cov_prior :: Matrix
  transition_matrix :: Matrix
  state :: Vector
  state_prior :: Vector
  innovation :: Vector

definition KalmanFilter_init :: "KalmanFilter \<Rightarrow> KalmanFilter" where
  "KalmanFilter_init k =
    (let NS = NUM_STATE_DOF;
         NZ = NUM_MEASUREMENT_DOF;
         k = k\<lparr>measurement_noise_cov := Zero_m NZ NZ\<rparr>;
         k = k\<lparr>process_noise_cov := Zero_m NS NS\<rparr>;
         k = k\<lparr>kalman_gain := Zero_m NS NZ\<rparr>;
         k = k\<lparr>measurement_matrix := Zero_m NZ NS\<rparr>;
         k = k\<lparr>state_cov := Zero_m NS NS\<rparr>;
         k = k\<lparr>state_cov_prior := Zero_m NS NS\<rparr>;
         k = k\<lparr>transition_matrix := Zero_m NS NS\<rparr>;
         k = k\<lparr>state := Zero_v NS\<rparr>;
         k = k\<lparr>state_prior := Zero_v NS\<rparr>;
         k = k\<lparr>innovation := Zero_v NZ\<rparr>
     in k)"

definition KalmanFilter_time_update :: "KalmanFilter \<Rightarrow> KalmanFilter" where
  "KalmanFilter_time_update k =
    (let k = k\<lparr>state_prior := mat_vec (transition_matrix k) (state k)\<rparr>;
         k = k\<lparr>state_cov_prior :=
                 mat_add (mat_mul (mat_mul (transition_matrix k) (state_cov k))
                                  (transpose_m (transition_matrix k)))
                         (process_noise_cov k)\<rparr>
     in k)"

text \<open>
  \<^verbatim>\<open>Matrix::inverse()\<close> is Eigen's, not this repository's: the filter takes it as the
  parameter \<open>inverse_m\<close>.
\<close>

definition KalmanFilter_measurement_update ::
    "(Matrix \<Rightarrow> Matrix) \<Rightarrow> KalmanFilter \<Rightarrow> Vector \<Rightarrow> KalmanFilter" where
  "KalmanFilter_measurement_update inverse_m k measurement =
    (let tmp = mat_add (mat_mul (mat_mul (measurement_matrix k) (state_cov_prior k))
                                (transpose_m (measurement_matrix k)))
                       (measurement_noise_cov k);
         tmp_inv = inverse_m tmp;
         k = k\<lparr>kalman_gain :=
                 mat_mul (mat_mul (state_cov_prior k) (transpose_m (measurement_matrix k)))
                         tmp_inv\<rparr>;
         k = k\<lparr>innovation := vec_sub measurement (mat_vec (measurement_matrix k) (state_prior k))\<rparr>;
         k = k\<lparr>state := vec_add (state_prior k) (mat_vec (kalman_gain k) (innovation k))\<rparr>;
         k = k\<lparr>state_cov :=
                 mat_sub (state_cov_prior k)
                         (mat_mul (mat_mul (kalman_gain k) (measurement_matrix k))
                                  (state_cov_prior k))\<rparr>
     in k)"


section \<open>Settings\<close>

text \<open>
  Modelled from the spec: the struct \<^verbatim>\<open>settings\<close> is declared in \<^verbatim>\<open>kalman.h\<close>.  The
  two slider values are read from the settings store at every use and can change between two
  calls.  The compiled-in constants (\<^verbatim>\<open>adaptivity_window_length\<close>, \<^verbatim>\<open>deadzone_scale\<close>,
  \<^verbatim>\<open>deadzone_exponent\<close>, \<^verbatim>\<open>process_sigma_pos\<close>, \<^verbatim>\<open>process_simga_rot\<close>) and the
  monotone mapping \<^verbatim>\<open>map_slider_value\<close> are taken as fields, so that every result holds
  for whatever values the header gives them.
\<close>

record settings =
  noise_rot_slider_value :: int
  noise_pos_slider_value :: int
  adaptivity_window_length :: real
  deadzone_scale :: real
  deadzone_exponent :: real
  process_sigma_pos :: real
  process_simga_rot :: real
  map_slider_value :: "int \<Rightarrow> real"


section \<open>The adaptive process noise scaler\<close>

record KalmanProcessNoiseScaler =
  base_cov :: Matrix
  innovation_cov_estimate :: Matrix

definition KalmanProcessNoiseScaler_init ::
    "KalmanProcessNoiseScaler \<Rightarrow> KalmanProcessNoiseScaler" where
  "KalmanProcessNoiseScaler_init sc =
    (let sc = sc\<lparr>base_cov := Zero_m NUM_STATE_DOF NUM_STATE_DOF\<rparr>;
         sc = sc\<lparr>innovation_cov_estimate := Zero_m NUM_MEASUREMENT_DOF NUM_MEASUREMENT_DOF\<rparr>
     in sc)"

text \<open>The locals of \<^verbatim>\<open>KalmanProcessNoiseScaler::update\<close>, in the order of the source.\<close>

definition update_estimate ::
    "settings \<Rightarrow> KalmanProcessNoiseScaler \<Rightarrow> KalmanFilter \<Rightarrow> real \<Rightarrow> Matrix" where
  "update_estimate s sc k dt =
    (let ddT = outer (innovation k) (innovation k);
         f = dt / (dt + adaptivity_window_length s)
     in mat_add (smult f ddT) (smult (1 - f) (innovation_cov_estimate sc)))"

definition update_T1 :: "KalmanProcessNoiseScaler \<Rightarrow> KalmanFilter \<Rightarrow> real" where
  "update_T1 sc k = trace_m (mat_sub (innovation_cov_estimate sc) (measurement_noise_cov k))"

definition update_T2 :: "KalmanFilter \<Rightarrow> real" where
  "update_T2 k =
     trace_m (mat_mul (mat_mul (measurement_matrix k) (state_cov_prior k))
                      (transpose_m (measurement_matrix k)))"

definition update_alpha :: "real \<Rightarrow> real \<Rightarrow> real" where
  "update_alpha T1 T2 =
    (let alpha = 0.001
     in if T2 > 0 \<and> T1 > 0
        then (let alpha = T1 / T2;
                  alpha = sqrt alpha;
                  alpha = std_min 1000 (std_max 0.001 alpha)
              in alpha)
        else alpha)"

definition KalmanProcessNoiseScaler_update ::
    "settings \<Rightarrow> KalmanProcessNoiseScaler \<Rightarrow> KalmanFilter \<Rightarrow> real
       \<Rightarrow> KalmanProcessNoiseScaler \<times> KalmanFilter" where
  "KalmanProcessNoiseScaler_update s sc k dt =
    (let sc = sc\<lparr>innovation_cov_estimate := update_estimate s sc k dt\<rparr>;
         T1 = update_T1 sc k;
         T2 = update_T2 k;
         alpha = update_alpha T1 T2;
         k = k\<lparr>process_noise_cov := smult alpha (base_cov sc)\<rparr>
     in (sc, k))"


section \<open>The deadzone filter\<close>

record DeadzoneFilter =
  last_output :: Vector
  dz_size :: Vector

text \<open>
  Modelled from the spec: \<^verbatim>\<open>DeadzoneFilter::reset\<close> is defined in \<^verbatim>\<open>kalman.h\<close>.
  The spec lists \<open>dz_size\<close> and \<open>last_output\<close> as the deadzone state, ``reset to zero/initial
  pose on configuration reset'', and has \<^verbatim>\<open>reset()\<close> ``clear the deadzone filter state''.
\<close>

definition DeadzoneFilter_reset :: "DeadzoneFilter \<Rightarrow> DeadzoneFilter" where
  "DeadzoneFilter_reset d = d\<lparr>last_output := Zero_v 6, dz_size := Zero_v 6\<rparr>"

text \<open>
  One pass of the loop body of \<^verbatim>\<open>DeadzoneFilter::filter\<close> at index \<open>i\<close>.  The unqualified
  \<^verbatim>\<open>abs\<close> is read as the absolute value of a double.  The doubles are read here as exact
  reals, so that \<open>f / (f + 1)\<close> is below 1 whatever \<open>f\<close> is; \<open>DeadzoneFilter_body_double\<close>
  below is the same body with each operation rounded as the machine rounds it.
\<close>

definition DeadzoneFilter_body ::
    "settings \<Rightarrow> Vector \<Rightarrow> nat \<Rightarrow> DeadzoneFilter \<times> Vector \<Rightarrow> DeadzoneFilter \<times> Vector" where
  "DeadzoneFilter_body s input i acc =
    (let d = fst acc;
         out = snd acc;
         dz = dz_size d ! i;
         out = (if dz > 0
                then (let delta = input ! i - last_output d ! i;
                          f = pow_d (\<bar>delta\<bar> / dz) (deadzone_exponent s);
                          response = f / (f + 1) * delta
                      in out[i := last_output d ! i + response])
                else out[i := input ! i]);
         d = d\<lparr>last_output := (last_output d)[i := out ! i]\<rparr>
     in (d, out))"

function DeadzoneFilter_loop ::
    "settings \<Rightarrow> Vector \<Rightarrow> nat \<Rightarrow> DeadzoneFilter \<times> Vector \<Rightarrow> DeadzoneFilter \<times> Vector" where
  "DeadzoneFilter_loop s input i acc =
    (if i < length input
     then DeadzoneFilter_loop s input (i + 1) (DeadzoneFilter_body s input i acc)
     else acc)"
  by pat_completeness auto
termination
  by (relation "measure (\<lambda>(s, input, i, acc). length input - i)") auto

declare DeadzoneFilter_loop.simps [simp del]

text \<open>
  \<^verbatim>\<open>PoseVector out;\<close> is not initialised; the loop assigns each of its entries before the
  function returns, so the zeros it starts from here are never read.
\<close>

definition DeadzoneFilter_filter ::
    "settings \<Rightarrow> DeadzoneFilter \<Rightarrow> Vector \<Rightarrow> DeadzoneFilter \<times> Vector" where
  "DeadzoneFilter_filter s d input =
     DeadzoneFilter_loop s input 0 (d, Zero_v (length input))"


section \<open>The filter object\<close>

text \<open>
  Modelled from the spec: \<^verbatim>\<open>Timer\<close> comes from \<^verbatim>\<open>compat/timer.hpp\<close>.  The spec has it a
  monotonic elapsed-time clock that is started and read; the clock's value at each access is
  an input of the call.
\<close>

record Timer =
  started_at :: real

definition Timer_start :: "real \<Rightarrow> Timer \<Rightarrow> Timer" where
  "Timer_start now t = t\<lparr>started_at := now\<rparr>"

definition Timer_elapsed_seconds :: "real \<Rightarrow> Timer \<Rightarrow> real" where
  "Timer_elapsed_seconds now t = now - started_at t"

definition DBL_MAX :: real where
  \<comment> \<open>\<^verbatim>\<open>std::numeric_limits<double>::max()\<close>\<close>
  "DBL_MAX = (2 ^ 53 - 1) * 2 ^ 971"

record FTNoIR_Filter =
  kf :: KalmanFilter
  kf_adaptive_process_noise_cov :: KalmanProcessNoiseScaler
  dz_filter :: DeadzoneFilter
  last_input :: Vector
  first_run :: bool
  dt_since_last_input :: real
  prev_slider_pos :: "int \<times> int"
  minimal_state_var :: Vector
  timer :: Timer

definition fill_transition_matrix :: "FTNoIR_Filter \<Rightarrow> real \<Rightarrow> FTNoIR_Filter" where
  "fill_transition_matrix st dt =
     st\<lparr>kf := fold (\<lambda>i k. k\<lparr>transition_matrix := set_elem (transition_matrix k) i (i + 6) dt\<rparr>)
                   [0..<6] (kf st)\<rparr>"

definition fill_block :: "real \<Rightarrow> real \<Rightarrow> real \<Rightarrow> nat \<Rightarrow> Matrix \<Rightarrow> Matrix" where
  \<comment> \<open>the four assignments of one pass of either loop of
      \<^verbatim>\<open>fill_process_noise_cov_matrix\<close>\<close>
  "fill_block a b c i target =
    (let target = set_elem target i i a;
         target = set_elem target i (i + 6) (a * c);
         target = set_elem target (i + 6) i (a * c);
         target = set_elem target (i + 6) (i + 6) (a * b)
     in target)"

definition fill_process_noise_cov_matrix :: "settings \<Rightarrow> Matrix \<Rightarrow> real \<Rightarrow> Matrix" where
  "fill_process_noise_cov_matrix s target dt =
    (let sigma_pos = process_sigma_pos s;
         sigma_angle = process_simga_rot s;
         a_pos = sigma_pos * sigma_pos * dt;
         a_ang = sigma_angle * sigma_angle * dt;
         b = 20;
         c = 1;
         target = fold (fill_block a_pos b c) [0..<3] target;
         target = fold (fill_block a_ang b c) [3..<6] target
     in target)"

definition do_kalman_filter ::
    "(Matrix \<Rightarrow> Matrix) \<Rightarrow> settings \<Rightarrow> FTNoIR_Filter \<Rightarrow> Vector \<Rightarrow> real \<Rightarrow> bool
       \<Rightarrow> FTNoIR_Filter \<times> Vector" where
  "do_kalman_filter inverse_m s st input dt new_input =
    (let st = (if new_input
               then (let dt = dt_since_last_input st;
                         st = fill_transition_matrix st dt;
                         sc = kf_adaptive_process_noise_cov st;
                         st = st\<lparr>kf_adaptive_process_noise_cov :=
                                   sc\<lparr>base_cov := fill_process_noise_cov_matrix s (base_cov sc) dt\<rparr>\<rparr>;
                         upd = KalmanProcessNoiseScaler_update s
                                 (kf_adaptive_process_noise_cov st) (kf st) dt;
                         st = st\<lparr>kf_adaptive_process_noise_cov := fst upd, kf := snd upd\<rparr>;
                         st = st\<lparr>kf := KalmanFilter_time_update (kf st)\<rparr>;
                         st = st\<lparr>kf := KalmanFilter_measurement_update inverse_m (kf st) input\<rparr>
                     in st)
               else st)
     in (st, head 6 (state (kf st))))"

definition reset_matrices :: "nat \<Rightarrow> KalmanFilter \<Rightarrow> KalmanFilter" where
  \<comment> \<open>one pass of the first loop of \<^verbatim>\<open>reset\<close>\<close>
  "reset_matrices i k =
    (let k = k\<lparr>transition_matrix := set_elem (transition_matrix k) i i 1\<rparr>;
         k = k\<lparr>transition_matrix := set_elem (transition_matrix k) (i + 6) (i + 6) 1\<rparr>;
         k = k\<lparr>measurement_matrix := set_elem (measurement_matrix k) i i 1\<rparr>
     in k)"

definition reset_noise :: "real \<Rightarrow> real \<Rightarrow> nat \<Rightarrow> KalmanFilter \<Rightarrow> KalmanFilter" where
  \<comment> \<open>one pass of the second loop of \<^verbatim>\<open>reset\<close>\<close>
  "reset_noise noise_variance_position noise_variance_angle i k =
    (let k = k\<lparr>measurement_noise_cov :=
                 set_elem (measurement_noise_cov k) i i noise_variance_position\<rparr>;
         k = k\<lparr>measurement_noise_cov :=
                 set_elem (measurement_noise_cov k) (i + 3) (i + 3) noise_variance_angle\<rparr>
     in k)"

definition FTNoIR_Filter_reset :: "settings \<Rightarrow> FTNoIR_Filter \<Rightarrow> FTNoIR_Filter" where
  "FTNoIR_Filter_reset s st =
    (let st = st\<lparr>kf := KalmanFilter_init (kf st)\<rparr>;
         st = st\<lparr>kf_adaptive_process_noise_cov :=
                   KalmanProcessNoiseScaler_init (kf_adaptive_process_noise_cov st)\<rparr>;
         st = st\<lparr>kf := fold reset_matrices [0..<6] (kf st)\<rparr>;
         noise_variance_position = map_slider_value s (noise_pos_slider_value s);
         noise_variance_angle = map_slider_value s (noise_rot_slider_value s);
         st = st\<lparr>kf := fold (reset_noise noise_variance_position noise_variance_angle)
                             [0..<3] (kf st)\<rparr>;
         st = fill_transition_matrix st 0.03;
         sc = kf_adaptive_process_noise_cov st;
         st = st\<lparr>kf_adaptive_process_noise_cov :=
                   sc\<lparr>base_cov := fill_process_noise_cov_matrix s (base_cov sc) 0.03\<rparr>\<rparr>;
         st = st\<lparr>kf := (kf st)\<lparr>process_noise_cov :=
                                   base_cov (kf_adaptive_process_noise_cov st)\<rparr>\<rparr>;
         st = st\<lparr>kf := (kf st)\<lparr>state_cov := process_noise_cov (kf st)\<rparr>\<rparr>;
         st = st\<lparr>last_input := fold (\<lambda>i v. v[i := 0]) [0..<6] (last_input st)\<rparr>;
         st = st\<lparr>first_run := True\<rparr>;
         st = st\<lparr>dt_since_last_input := 0\<rparr>;
         st = st\<lparr>prev_slider_pos := (noise_pos_slider_value s, snd (prev_slider_pos st))\<rparr>;
         st = st\<lparr>prev_slider_pos := (fst (prev_slider_pos st), noise_rot_slider_value s)\<rparr>;
         st = st\<lparr>minimal_state_var := Constant_v 6 DBL_MAX\<rparr>;
         st = st\<lparr>dz_filter := DeadzoneFilter_reset (dz_filter st)\<rparr>
     in st)"

text \<open>
  The constructor runs \<^verbatim>\<open>reset()\<close> on the object as allocated: \<open>raw\<close> stands for whatever
  the members hold before the constructor body runs.
\<close>

definition FTNoIR_Filter_new :: "settings \<Rightarrow> FTNoIR_Filter \<Rightarrow> FTNoIR_Filter" where
  "FTNoIR_Filter_new s raw = FTNoIR_Filter_reset s raw"

text \<open>
  The parts of \<^verbatim>\<open>FTNoIR_Filter::filter\<close>.  The buffers behind the pointers
  \<^verbatim>\<open>input_\<close> and \<^verbatim>\<open>output_\<close> (here \<open>input_buf\<close> and \<open>output_buf\<close>) are lists of at
  least six reals, and the two \<^verbatim>\<open>Eigen::Map\<close>s are views of their first six entries.
\<close>

definition sliders_changed :: "settings \<Rightarrow> FTNoIR_Filter \<Rightarrow> bool" where
  "sliders_changed s st \<longleftrightarrow>
     fst (prev_slider_pos st) \<noteq> noise_pos_slider_value s \<or>
     snd (prev_slider_pos st) \<noteq> noise_rot_slider_value s"

definition check_sliders :: "settings \<Rightarrow> FTNoIR_Filter \<Rightarrow> FTNoIR_Filter" where
  "check_sliders s st = (if sliders_changed s st then FTNoIR_Filter_reset s st else st)"

definition map_pose :: "real list \<Rightarrow> Vector" where
  "map_pose buf = take 6 buf"

definition assign_pose :: "Vector \<Rightarrow> real list \<Rightarrow> real list" where
  "assign_pose v buf = take 6 v @ drop 6 buf"

definition new_measurement :: "FTNoIR_Filter \<Rightarrow> real list \<Rightarrow> bool" where
  \<comment> \<open>the local \<^verbatim>\<open>new_input\<close>\<close>
  "new_measurement st input_buf = cwiseNotEqual_any (map_pose input_buf) (last_input st)"

definition update_deadzone_size :: "settings \<Rightarrow> FTNoIR_Filter \<Rightarrow> FTNoIR_Filter" where
  "update_deadzone_size s st =
    (let variance = head 6 (diagonal (state_cov (kf st)));
         st = st\<lparr>minimal_state_var := cwiseMin (minimal_state_var st) variance\<rparr>;
         st = st\<lparr>dz_filter := (dz_filter st)\<lparr>dz_size :=
                   vec_scale (cwiseSqrt (vec_sub variance (minimal_state_var st)))
                             (deadzone_scale s)\<rparr>\<rparr>
     in st)"

text \<open>
  \<open>t1\<close> is the clock at the first access of the timer in the call, \<open>t2\<close> the clock at the
  second one (the restart on a tick that is not the first).
\<close>

definition FTNoIR_Filter_filter ::
    "(Matrix \<Rightarrow> Matrix) \<Rightarrow> settings \<Rightarrow> real \<Rightarrow> real \<Rightarrow> FTNoIR_Filter \<Rightarrow> real list \<Rightarrow> real list
       \<Rightarrow> FTNoIR_Filter \<times> real list" where
  "FTNoIR_Filter_filter inverse_m s t1 t2 st input_buf output_buf =
    (let input = map_pose input_buf;
         st = check_sliders s st
     in if first_run st
        then (let st = st\<lparr>timer := Timer_start t1 (timer st)\<rparr>;
                  st = st\<lparr>first_run := False\<rparr>
              in (st, output_buf))
        else (let new_input = new_measurement st input_buf;
                  dt = Timer_elapsed_seconds t1 (timer st);
                  st = st\<lparr>dt_since_last_input := dt_since_last_input st + dt\<rparr>;
                  st = st\<lparr>timer := Timer_start t2 (timer st)\<rparr>;
                  r = do_kalman_filter inverse_m s st input dt new_input;
                  st = fst r;
                  output_buf = assign_pose (snd r) output_buf;
                  st = update_deadzone_size s st;
                  r = DeadzoneFilter_filter s (dz_filter st) (map_pose output_buf);
                  st = st\<lparr>dz_filter := fst r\<rparr>;
                  output_buf = assign_pose (snd r) output_buf;
                  st = (if new_input
                        then (let st = st\<lparr>dt_since_last_input := 0\<rparr>;
                                  st = st\<lparr>last_input := input\<rparr>
                              in st)
                        else st)
              in (st, output_buf)))"


section \<open>Reference definitions\<close>

text \<open>
  The spec's reading of one axis of the deadzone filter (section 4.3): the output for deadzone
  size \<open>dz\<close>, previous output \<open>prev\<close> and input \<open>x\<close>.
\<close>

definition deadzone_axis :: "settings \<Rightarrow> real \<Rightarrow> real \<Rightarrow> real \<Rightarrow> real" where
  "deadzone_axis s dz prev x =
    (if dz > 0
     then (let delta = x - prev;
               f = pow_d (\<bar>delta\<bar> / dz) (deadzone_exponent s);
               response = f / (f + 1) * delta
           in prev + response)
     else x)"

text \<open>The spec's \<open>clamp(x, lo, hi)\<close> (section 4.2).\<close>

definition clamp :: "real \<Rightarrow> real \<Rightarrow> real \<Rightarrow> real" where
  "clamp x lo hi = max lo (min x hi)"


section \<open>Block matrices\<close>

text \<open>
  Every matrix the filter builds is made of 6 by 6 diagonal blocks: the state couples the
  pose component \<open>i\<close> with its velocity \<open>i + 6\<close> and with nothing else.  \<open>tab6 x\<close> is the
  6-vector of the values \<open>x 0 \<dots> x 5\<close>, \<open>stack x v\<close> the 12-vector of pose and velocity,
  \<open>diag6 d\<close> the diagonal matrix of \<open>d\<close>, and \<open>blocks_2x2 a b c d\<close> the 12 by 12 matrix of
  four diagonal blocks, \<open>a\<close> and \<open>b\<close> above \<open>c\<close> and \<open>d\<close>.
\<close>

definition tab6 :: "(nat \<Rightarrow> real) \<Rightarrow> Vector" where
  "tab6 x = map x [0..<6]"

definition stack :: "(nat \<Rightarrow> real) \<Rightarrow> (nat \<Rightarrow> real) \<Rightarrow> Vector" where
  "stack x v = tab6 x @ tab6 v"

definition diag6 :: "(nat \<Rightarrow> real) \<Rightarrow> Matrix" where
  "diag6 d = map (\<lambda>i. map (\<lambda>j. if i = j then d i else 0) [0..<6]) [0..<6]"

definition hcat :: "Matrix \<Rightarrow> Matrix \<Rightarrow> Matrix" where
  "hcat A B = map2 (@) A B"

definition blocks_1x2 :: "(nat \<Rightarrow> real) \<Rightarrow> (nat \<Rightarrow> real) \<Rightarrow> Matrix" where
  "blocks_1x2 a b = hcat (diag6 a) (diag6 b)"

definition blocks_2x1 :: "(nat \<Rightarrow> real) \<Rightarrow> (nat \<Rightarrow> real) \<Rightarrow> Matrix" where
  "blocks_2x1 a c = diag6 a @ diag6 c"

definition blocks_2x2 ::
    "(nat \<Rightarrow> real) \<Rightarrow> (nat \<Rightarrow> real) \<Rightarrow> (nat \<Rightarrow> real) \<Rightarrow> (nat \<Rightarrow> real) \<Rightarrow> Matrix" where
  "blocks_2x2 a b c d = hcat (diag6 a) (diag6 b) @ hcat (diag6 c) (diag6 d)"

text \<open>
  What \<^verbatim>\<open>fill_process_noise_cov_matrix\<close> writes for the interval \<open>dt\<close> and what
  \<^verbatim>\<open>reset()\<close> leaves in the Kalman filter, in blocks.
\<close>

definition noise_diagonal :: "settings \<Rightarrow> real \<Rightarrow> nat \<Rightarrow> real" where
  "noise_diagonal s dt =
     (\<lambda>i. if i < 3 then process_sigma_pos s * process_sigma_pos s * dt
          else process_simga_rot s * process_simga_rot s * dt)"

definition process_noise_blocks :: "settings \<Rightarrow> real \<Rightarrow> Matrix" where
  "process_noise_blocks s dt =
     blocks_2x2 (noise_diagonal s dt) (\<lambda>i. noise_diagonal s dt i * 1)
                (\<lambda>i. noise_diagonal s dt i * 1) (\<lambda>i. noise_diagonal s dt i * 20)"

definition noise_variances :: "settings \<Rightarrow> nat \<Rightarrow> real" where
  "noise_variances s =
     (\<lambda>i. if i < 3 then map_slider_value s (noise_pos_slider_value s)
          else map_slider_value s (noise_rot_slider_value s))"

definition reset_kf :: "settings \<Rightarrow> KalmanFilter" where
  "reset_kf s =
     \<lparr>measurement_noise_cov = diag6 (noise_variances s),
      process_noise_cov = process_noise_blocks s 0.03,
      kalman_gain = Zero_m 12 6,
      measurement_matrix = blocks_1x2 (\<lambda>i. 1) (\<lambda>i. 0),
      state_cov = process_noise_blocks s 0.03,
      state_cov_prior = Zero_m 12 12,
      transition_matrix = blocks_2x2 (\<lambda>i. 1) (\<lambda>i. 0.03) (\<lambda>i. 0) (\<lambda>i. 1),
      state = Zero_v 12,
      state_prior = Zero_v 12,
      innovation = Zero_v 6\<rparr>"

section \<open>Symmetry, and the assumptions on what the filter is given\<close>

text \<open>
  A symmetric \<open>n\<close> by \<open>n\<close> matrix.
\<close>

definition symmetric_m :: "nat \<Rightarrow> Matrix \<Rightarrow> bool" where
  "symmetric_m n M \<longleftrightarrow>
     length M = n \<and> list_all (\<lambda>r. length r = n) M \<and> (\<forall>i<n. \<forall>j<n. M ! i ! j = M ! j ! i)"

text \<open>
  The innovation covariance of this filter is a diagonal matrix with a positive diagonal;
  on such a matrix the exact inverse is the diagonal matrix of the reciprocals.
  \<open>inverts_positive_diagonals\<close> says that the inverse the filter is given is exact there.
\<close>

definition inverts_positive_diagonals :: "(Matrix \<Rightarrow> Matrix) \<Rightarrow> bool" where
  "inverts_positive_diagonals inverse_m \<longleftrightarrow>
     (\<forall>d. (\<forall>i<6. 0 < d i) \<longrightarrow> inverse_m (diag6 d) = diag6 (\<lambda>i. 1 / d i))"

text \<open>
  The measurement noise variances that \<^verbatim>\<open>reset()\<close> reads from the sliders are positive.
\<close>

definition positive_noise :: "settings \<Rightarrow> bool" where
  "positive_noise s \<longleftrightarrow>
     0 < map_slider_value s (noise_pos_slider_value s) \<and>
     0 < map_slider_value s (noise_rot_slider_value s)"

text \<open>
  A symmetric 12 by 12 matrix of diagonal blocks whose 2 by 2 block of every axis is positive
  semi-definite; the invariant of the Kalman filter's members; and the invariant of the filter
  object, \<open>now\<close> being a time the clock has reached.
\<close>

definition psd_blocks :: "Matrix \<Rightarrow> bool" where
  "psd_blocks M \<longleftrightarrow>
     (\<exists>a b d. M = blocks_2x2 a b b d \<and> (\<forall>i<6. 0 \<le> a i \<and> 0 \<le> d i \<and> (b i)\<^sup>2 \<le> a i * d i))"

definition kf_inv :: "KalmanFilter \<Rightarrow> bool" where
  "kf_inv k \<longleftrightarrow>
     measurement_matrix k = blocks_1x2 (\<lambda>i. 1) (\<lambda>i. 0) \<and>
     (\<exists>t. transition_matrix k = blocks_2x2 (\<lambda>i. 1) (\<lambda>i. t) (\<lambda>i. 0) (\<lambda>i. 1)) \<and>
     (\<exists>r. measurement_noise_cov k = diag6 r \<and> (\<forall>i<6. 0 < r i)) \<and>
     psd_blocks (state_cov k) \<and> psd_blocks (state_cov_prior k)"

definition filter_inv :: "real \<Rightarrow> FTNoIR_Filter \<Rightarrow> bool" where
  "filter_inv now st \<longleftrightarrow>
     kf_inv (kf st) \<and>
     (\<exists>a b c d. base_cov (kf_adaptive_process_noise_cov st) = blocks_2x2 a b c d) \<and>
     0 \<le> dt_since_last_input st \<and>
     (\<not> first_run st \<longrightarrow> started_at (timer st) \<le> now)"

section \<open>Sequences of calls\<close>

text \<open>
  A call of \<^verbatim>\<open>FTNoIR_Filter::filter\<close>: the settings at the time of the call, the two clock
  readings and the two buffers.  \<open>filter_calls\<close> runs a sequence of calls on a filter object;
  \<open>clock_readings\<close> lists the readings of the clock in the order they are made.
\<close>

record filter_call =
  call_settings :: settings
  call_t1 :: real
  call_t2 :: real
  call_input :: "real list"
  call_output :: "real list"

definition filter_calls ::
    "(Matrix \<Rightarrow> Matrix) \<Rightarrow> FTNoIR_Filter \<Rightarrow> filter_call list \<Rightarrow> FTNoIR_Filter" where
  "filter_calls inverse_m st cs =
     fold (\<lambda>c st. fst (FTNoIR_Filter_filter inverse_m (call_settings c) (call_t1 c) (call_t2 c)
                          st (call_input c) (call_output c)))
          cs st"

definition clock_readings :: "filter_call list \<Rightarrow> real list" where
  "clock_readings cs = concat (map (\<lambda>c. [call_t1 c, call_t2 c]) cs)"

section \<open>Example values\<close>

text \<open>
  A settings store, a deadzone filter, an object before its constructor has run, an inverse
  for the diagonal matrices, and a run: a fresh filter after its warm-up call at time 0
  (\<open>example_warm\<close>), after a second call at time 1 with the zero pose (\<open>example_idle\<close>) and
  after a third call at time 2 with the pose \<open>[1, 0, 0, 0, 0, 0]\<close> (\<open>example_moved\<close>);
  \<open>example_calls\<close> lists these three calls.  The examples below are stated on them.
\<close>

definition example_settings :: settings where
  "example_settings =
     \<lparr>noise_rot_slider_value = 75, noise_pos_slider_value = 75,
      adaptivity_window_length = 0.5, deadzone_scale = 2, deadzone_exponent = 4,
      process_sigma_pos = 0.5, process_simga_rot = 0.5,
      map_slider_value = (\<lambda>v. 10 powr (real_of_int v * 0.04 - 3))\<rparr>"

definition example_deadzone :: DeadzoneFilter where
  "example_deadzone = \<lparr>last_output = [1, 0, 0, 0, 0, 0], dz_size = [0, 1, 1, 0, 0, 0]\<rparr>"

definition example_raw :: FTNoIR_Filter where
  "example_raw =
     \<lparr>kf = \<lparr>measurement_noise_cov = [], process_noise_cov = [], kalman_gain = [],
             measurement_matrix = [], state_cov = [], state_cov_prior = [],
             transition_matrix = [], state = [], state_prior = [], innovation = []\<rparr>,
      kf_adaptive_process_noise_cov = \<lparr>base_cov = [], innovation_cov_estimate = []\<rparr>,
      dz_filter = \<lparr>last_output = Zero_v 6, dz_size = Zero_v 6\<rparr>,
      last_input = Zero_v 6, first_run = False, dt_since_last_input = 0,
      prev_slider_pos = (0, 0), minimal_state_var = Zero_v 6,
      timer = \<lparr>started_at = 0\<rparr>\<rparr>"

definition inverse_diagonal :: "Matrix \<Rightarrow> Matrix" where
  "inverse_diagonal M =
     map (\<lambda>i. map (\<lambda>j. if i = j then 1 / (M ! i ! i) else 0) [0..<length M]) [0..<length M]"

definition example_warm :: FTNoIR_Filter where
  "example_warm =
     fst (FTNoIR_Filter_filter inverse_diagonal example_settings 0 0
            (FTNoIR_Filter_new example_settings example_raw)
            [1, 0, 0, 0, 0, 0] [0, 0, 0, 0, 0, 0])"

definition example_settings_moved :: settings where
  "example_settings_moved = example_settings\<lparr>noise_pos_slider_value := 50\<rparr>"

definition example_idle :: FTNoIR_Filter where
  "example_idle =
     fst (FTNoIR_Filter_filter inverse_diagonal example_settings 1 1 example_warm
            [0, 0, 0, 0, 0, 0] [0, 0, 0, 0, 0, 0])"

definition example_moved :: FTNoIR_Filter where
  "example_moved =
     fst (FTNoIR_Filter_filter inverse_diagonal example_settings 2 2 example_idle
            [1, 0, 0, 0, 0, 0] [0, 0, 0, 0, 0, 0])"

definition example_calls :: "filter_call list" where
  "example_calls =
     [\<lparr>call_settings = example_settings, call_t1 = 0, call_t2 = 0,
       call_input = [1, 0, 0, 0, 0, 0], call_output = [0, 0, 0, 0, 0, 0]\<rparr>,
      \<lparr>call_settings = example_settings, call_t1 = 1, call_t2 = 1,
       call_input = [0, 0, 0, 0, 0, 0], call_output = [0, 0, 0, 0, 0, 0]\<rparr>,
      \<lparr>call_settings = example_settings, call_t1 = 2, call_t2 = 2,
       call_input = [1, 0, 0, 0, 0, 0], call_output = [0, 0, 0, 0, 0, 0]\<rparr>]"

section \<open>The deadzone filter in double precision\<close>

text \<open>
  The values of IEEE 754 binary64, the \<^verbatim>\<open>double\<close> of the code: the finite ones by the real
  number they stand for, the two infinities and NaN.  The two zeros are not told apart; the
  code below never divides by a zero, the one place where their signs would show.
\<close>

datatype double = Finite real | PlusInf | MinusInf | NaN

text \<open>
  Rounding to the nearest integer, a tie going to the even one: the rounding mode of the
  machine unless the program changes it, which \<^verbatim>\<open>kalman.cpp\<close> does not.
\<close>

definition round_half_even :: "real \<Rightarrow> int" where
  "round_half_even q =
    (let n = \<lfloor>q\<rfloor>;
         r = q - of_int n
     in if r < 1 / 2 then n
        else if 1 / 2 < r then n + 1
        else if even n then n else n + 1)"

text \<open>
  The distance between neighbouring doubles around \<open>x\<close>: a double carries 53 significant bits,
  so between \<open>2\<^sup>e\<close> and \<open>2\<^sup>e\<^sup>+\<^sup>1\<close> the doubles are the multiples of \<open>2\<^sup>e\<^sup>-\<^sup>5\<^sup>2\<close>, and below
  \<open>2\<^sup>-\<^sup>1\<^sup>0\<^sup>2\<^sup>2\<close> (the subnormal range) the multiples of \<open>2\<^sup>-\<^sup>1\<^sup>0\<^sup>7\<^sup>4\<close>.
\<close>

definition ulp :: "real \<Rightarrow> real" where
  "ulp x = 2 powr (of_int (max \<lfloor>log 2 \<bar>x\<bar>\<rfloor> (- 1022)) - 52)"

text \<open>
  The double that an operation delivers when its exact result is \<open>x\<close>: the nearest multiple
  of \<open>ulp x\<close>, and an infinity when that is beyond \<open>DBL_MAX\<close>.
\<close>

definition to_double :: "real \<Rightarrow> double" where
  "to_double x =
    (if x = 0 then Finite 0
     else (let y = ulp x * of_int (round_half_even (x / ulp x))
           in if DBL_MAX < y then PlusInf
              else if y < - DBL_MAX then MinusInf
              else Finite y))"

definition sign_inf :: "bool \<Rightarrow> double" where
  "sign_inf negative = (if negative then MinusInf else PlusInf)"

fun d_neg :: "double \<Rightarrow> double" where
  "d_neg (Finite x) = Finite (- x)"
| "d_neg PlusInf = MinusInf"
| "d_neg MinusInf = PlusInf"
| "d_neg NaN = NaN"

fun d_abs :: "double \<Rightarrow> double" where
  "d_abs (Finite x) = Finite \<bar>x\<bar>"
| "d_abs PlusInf = PlusInf"
| "d_abs MinusInf = PlusInf"
| "d_abs NaN = NaN"

fun d_add :: "double \<Rightarrow> double \<Rightarrow> double" where
  "d_add (Finite x) (Finite y) = to_double (x + y)"
| "d_add NaN b = NaN"
| "d_add a NaN = NaN"
| "d_add PlusInf MinusInf = NaN"
| "d_add MinusInf PlusInf = NaN"
| "d_add PlusInf b = PlusInf"
| "d_add a PlusInf = PlusInf"
| "d_add MinusInf b = MinusInf"
| "d_add a MinusInf = MinusInf"

definition d_sub :: "double \<Rightarrow> double \<Rightarrow> double" where
  "d_sub a b = d_add a (d_neg b)"

fun d_mul :: "double \<Rightarrow> double \<Rightarrow> double" where
  "d_mul (Finite x) (Finite y) = to_double (x * y)"
| "d_mul NaN b = NaN"
| "d_mul a NaN = NaN"
| "d_mul PlusInf PlusInf = PlusInf"
| "d_mul PlusInf MinusInf = MinusInf"
| "d_mul MinusInf PlusInf = MinusInf"
| "d_mul MinusInf MinusInf = PlusInf"
| "d_mul PlusInf (Finite y) = (if y = 0 then NaN else sign_inf (y < 0))"
| "d_mul MinusInf (Finite y) = (if y = 0 then NaN else sign_inf (0 < y))"
| "d_mul (Finite x) PlusInf = (if x = 0 then NaN else sign_inf (x < 0))"
| "d_mul (Finite x) MinusInf = (if x = 0 then NaN else sign_inf (0 < x))"

fun d_div :: "double \<Rightarrow> double \<Rightarrow> double" where
  "d_div (Finite x) (Finite y) =
     (if y = 0 then (if x = 0 then NaN else sign_inf (x < 0)) else to_double (x / y))"
| "d_div NaN b = NaN"
| "d_div a NaN = NaN"
| "d_div (Finite x) b = Finite 0"
| "d_div PlusInf (Finite y) = sign_inf (y < 0)"
| "d_div MinusInf (Finite y) = sign_inf (0 \<le> y)"
| "d_div a b = NaN"

text \<open>The comparisons \<^verbatim>\<open><\<close> and \<^verbatim>\<open><=\<close> of doubles; both are false when an operand is NaN.\<close>

fun d_less :: "double \<Rightarrow> double \<Rightarrow> bool" where
  "d_less (Finite x) (Finite y) = (x < y)"
| "d_less NaN b = False"
| "d_less a NaN = False"
| "d_less a MinusInf = False"
| "d_less PlusInf b = False"
| "d_less a b = True"

fun d_le :: "double \<Rightarrow> double \<Rightarrow> bool" where
  "d_le (Finite x) (Finite y) = (x \<le> y)"
| "d_le NaN b = False"
| "d_le a NaN = False"
| "d_le MinusInf b = True"
| "d_le a PlusInf = True"
| "d_le a b = False"

text \<open>
  \<^verbatim>\<open>pow\<close> of the C library at a finite exponent \<open>y\<close>, the constant
  \<^verbatim>\<open>settings::deadzone_exponent\<close>.  The special cases are those of the C standard.  On a
  positive finite base the power is rounded as the arithmetic operations are; the library's
  result is within a unit in the last place of that, and equal to it where the power is
  itself a double.
\<close>

fun d_pow :: "double \<Rightarrow> real \<Rightarrow> double" where
  "d_pow (Finite x) y =
     (if y = 0 then Finite 1
      else if x = 0 then (if 0 < y then Finite 0 else PlusInf)
      else if 0 < x then to_double (x powr y)
      else if of_int \<lfloor>y\<rfloor> \<noteq> y then NaN
      else if even \<lfloor>y\<rfloor> then to_double (\<bar>x\<bar> powr y)
      else d_neg (to_double (\<bar>x\<bar> powr y)))"
| "d_pow PlusInf y = (if y = 0 then Finite 1 else if 0 < y then PlusInf else Finite 0)"
| "d_pow MinusInf y =
     (if y = 0 then Finite 1
      else if y < 0 then Finite 0
      else if of_int \<lfloor>y\<rfloor> = y \<and> odd \<lfloor>y\<rfloor> then MinusInf else PlusInf)"
| "d_pow NaN y = (if y = 0 then Finite 1 else NaN)"

record DeadzoneFilter_double =
  last_output_d :: "double list"
  dz_size_d :: "double list"

text \<open>
  The loop body of \<^verbatim>\<open>DeadzoneFilter::filter\<close> again, every operation now the machine's:
  \<^verbatim>\<open>f / (f + 1.) * delta\<close> is the quotient, rounded, times \<open>delta\<close>, rounded.
\<close>

definition DeadzoneFilter_body_double ::
    "settings \<Rightarrow> double list \<Rightarrow> nat \<Rightarrow> DeadzoneFilter_double \<times> double list \<Rightarrow>
       DeadzoneFilter_double \<times> double list" where
  "DeadzoneFilter_body_double s input i acc =
    (let d = fst acc;
         out = snd acc;
         dz = dz_size_d d ! i;
         out = (if d_less (Finite 0) dz
                then (let delta = d_sub (input ! i) (last_output_d d ! i);
                          f = d_pow (d_div (d_abs delta) dz) (deadzone_exponent s);
                          response = d_mul (d_div f (d_add f (Finite 1))) delta
                      in out[i := d_add (last_output_d d ! i) response])
                else out[i := input ! i]);
         d = d\<lparr>last_output_d := (last_output_d d)[i := out ! i]\<rparr>
     in (d, out))"

function DeadzoneFilter_loop_double ::
    "settings \<Rightarrow> double list \<Rightarrow> nat \<Rightarrow> DeadzoneFilter_double \<times> double list \<Rightarrow>
       DeadzoneFilter_double \<times> double list" where
  "DeadzoneFilter_loop_double s input i acc =
    (if i < length input
     then DeadzoneFilter_loop_double s input (i + 1) (DeadzoneFilter_body_double s input i acc)
     else acc)"
  by pat_completeness auto
termination
  by (relation "measure (\<lambda>(s, input, i, acc). length input - i)") auto

declare DeadzoneFilter_loop_double.simps [simp del]

definition DeadzoneFilter_filter_double ::
    "settings \<Rightarrow> DeadzoneFilter_double \<Rightarrow> double list \<Rightarrow>
       DeadzoneFilter_double \<times> double list" where
  "DeadzoneFilter_filter_double s d input =
     DeadzoneFilter_loop_double s input 0 (d, replicate (length input) (Finite 0))"

text \<open>\<open>x\<close> lies in the closed interval between \<open>a\<close> and \<open>b\<close>, whichever of them is the larger.\<close>

definition d_between :: "double \<Rightarrow> double \<Rightarrow> double \<Rightarrow> bool" where
  "d_between a b x = ((d_le a x \<and> d_le x b) \<or> (d_le b x \<and> d_le x a))"

text \<open>
  A deadzone filter whose previous output on axis 0 is \<open>2\<^sup>6\<^sup>0\<close>, with a deadzone of size 1
  there and none on the other axes, and an input that is 1 on axis 0.
\<close>

definition example_deadzone_double :: DeadzoneFilter_double where
  "example_deadzone_double =
     \<lparr>last_output_d = [Finite (2 ^ 60), Finite 0, Finite 0, Finite 0, Finite 0, Finite 0],
      dz_size_d = [Finite 1, Finite 0, Finite 0, Finite 0, Finite 0, Finite 0]\<rparr>"

definition example_input_double :: "double list" where
  "example_input_double = [Finite 1, Finite 0, Finite 0, Finite 0, Finite 0, Finite 0]"


section \<open>Auxiliary definitions\<close>

text \<open>
  The filter object after the Kalman step of a tick that is not the first (the timer read and
  restarted, \<^verbatim>\<open>do_kalman_filter\<close> run), before the deadzone is sized.
\<close>

definition running_tick_kalman ::
  "(Matrix \<Rightarrow> Matrix) \<Rightarrow> settings \<Rightarrow> real \<Rightarrow> real \<Rightarrow> FTNoIR_Filter \<Rightarrow> real list \<Rightarrow> FTNoIR_Filter" where
  "running_tick_kalman inverse_m s t1 t2 st input_buf =
     fst (do_kalman_filter inverse_m s
            (st\<lparr>dt_since_last_input := dt_since_last_input st + Timer_elapsed_seconds t1 (timer st),
                 timer := Timer_start t2 (timer st)\<rparr>)
            (map_pose input_buf) (Timer_elapsed_seconds t1 (timer st))
            (new_measurement st input_buf))"

section \<open>Properties of the measurement update\<close>

text \<open>
  C1.  For every measurement, \<^verbatim>\<open>KalmanFilter::measurement_update\<close> computes the innovation
  covariance \<open>S = H P_prior H\<^sup>T + R\<close>, the gain \<open>K = P_prior H\<^sup>T S\<^sup>-\<^sup>1\<close> and the innovation
  \<open>y = measurement - H state_prior\<close>, and sets \<open>state = state_prior + K y\<close> and
  \<open>state_cov = P_prior - K H P_prior\<close>.  The result is the filter it was given with the
  fields \<open>kalman_gain\<close>, \<open>innovation\<close>, \<open>state\<close> and \<open>state_cov\<close> replaced, so nothing else is
  mutated; the function is total, so no measurement is rejected.  \<open>S\<^sup>-\<^sup>1\<close> is whatever Eigen's
  \<^verbatim>\<open>inverse()\<close> returns on \<open>S\<close>.
\<close>

theorem measurement_update_equations:
  "(let H = measurement_matrix k;
        R = measurement_noise_cov k;
        P_prior = state_cov_prior k;
        S = mat_add (mat_mul (mat_mul H P_prior) (transpose_m H)) R;
        K = mat_mul (mat_mul P_prior (transpose_m H)) (inverse_m S);
        y = vec_sub measurement (mat_vec H (state_prior k))
    in KalmanFilter_measurement_update inverse_m k measurement =
         k\<lparr>kalman_gain := K,
           innovation := y,
           state := vec_add (state_prior k) (mat_vec K y),
           state_cov := mat_sub P_prior (mat_mul (mat_mul K H) P_prior)\<rparr>)"
  by (simp add: KalmanFilter_measurement_update_def Let_def)


section \<open>Properties of the adaptive process noise scaler\<close>

lemma update_alpha_clamp:
  "update_alpha T1 T2 = (if T1 > 0 \<and> T2 > 0 then clamp (sqrt (T1 / T2)) 0.001 1000 else 0.001)"
  by (simp add: update_alpha_def Let_def std_min_def std_max_def clamp_def)

lemma clamp_range: "lo \<le> hi \<Longrightarrow> lo \<le> clamp x lo hi \<and> clamp x lo hi \<le> hi"
  by (simp add: clamp_def)

text \<open>
  C2.  For every call of \<^verbatim>\<open>KalmanProcessNoiseScaler::update\<close>, with \<open>T1\<close> the trace of the
  updated innovation covariance estimate minus the measurement noise covariance and \<open>T2\<close> the
  trace of \<open>H state_cov_prior H\<^sup>T\<close>, the scaling factor \<open>alpha\<close> is
  \<open>clamp (sqrt (T1 / T2)) 0.001 1000\<close> when both traces are positive and \<open>0.001\<close> otherwise;
  it lies in \<open>[0.001, 1000]\<close> whatever the innovation, the covariances and \<open>dt\<close> are; and the
  filter's \<open>process_noise_cov\<close> becomes \<open>alpha\<close> times \<open>base_cov\<close>.
\<close>

theorem scaler_alpha_clamped:
  "(let f = dt / (dt + adaptivity_window_length s);
        E = mat_add (smult f (outer (innovation k) (innovation k)))
                    (smult (1 - f) (innovation_cov_estimate sc));
        T1 = trace_m (mat_sub E (measurement_noise_cov k));
        T2 = trace_m (mat_mul (mat_mul (measurement_matrix k) (state_cov_prior k))
                              (transpose_m (measurement_matrix k)));
        alpha = (if T1 > 0 \<and> T2 > 0 then clamp (sqrt (T1 / T2)) 0.001 1000 else 0.001)
    in 0.001 \<le> alpha \<and> alpha \<le> 1000 \<and>
       KalmanProcessNoiseScaler_update s sc k dt =
         (sc\<lparr>innovation_cov_estimate := E\<rparr>,
          k\<lparr>process_noise_cov := smult alpha (base_cov sc)\<rparr>))"
proof -
  define f where "f = dt / (dt + adaptivity_window_length s)"
  define E where "E = mat_add (smult f (outer (innovation k) (innovation k)))
                              (smult (1 - f) (innovation_cov_estimate sc))"
  define T1 where "T1 = trace_m (mat_sub E (measurement_noise_cov k))"
  define T2 where "T2 = trace_m (mat_mul (mat_mul (measurement_matrix k) (state_cov_prior k))
                                         (transpose_m (measurement_matrix k)))"
  define alpha where
    "alpha = (if T1 > 0 \<and> T2 > 0 then clamp (sqrt (T1 / T2)) 0.001 1000 else 0.001)"
  have lo: "0.001 \<le> alpha" and hi: "alpha \<le> 1000"
    using clamp_range [of "0.001" 1000 "sqrt (T1 / T2)"] by (simp_all add: alpha_def)
  have upd: "KalmanProcessNoiseScaler_update s sc k dt =
      (sc\<lparr>innovation_cov_estimate := E\<rparr>, k\<lparr>process_noise_cov := smult alpha (base_cov sc)\<rparr>)"
    by (simp add: KalmanProcessNoiseScaler_update_def Let_def update_alpha_clamp update_T1_def
        update_T2_def update_estimate_def alpha_def T1_def T2_def E_def f_def)
  show ?thesis
    unfolding Let_def using lo hi upd unfolding alpha_def T1_def T2_def E_def f_def
    by (intro conjI) assumption+
qed


section \<open>Properties of the deadzone filter\<close>

lemma DeadzoneFilter_body_eq:
  assumes "i < length out"
  shows "DeadzoneFilter_body s input i (d, out) =
     (d\<lparr>last_output := (last_output d)[i := deadzone_axis s (dz_size d ! i) (last_output d ! i) (input ! i)]\<rparr>,
      out[i := deadzone_axis s (dz_size d ! i) (last_output d ! i) (input ! i)])"
  using assms by (simp add: DeadzoneFilter_body_def deadzone_axis_def Let_def)

lemma DeadzoneFilter_loop_closed:
  assumes "length input = n" "length (last_output d) = n" "length out = n" "i \<le> n" "k = n - i"
  shows "DeadzoneFilter_loop s input i (d, out) =
     (d\<lparr>last_output := take i (last_output d) @
          map (\<lambda>j. deadzone_axis s (dz_size d ! j) (last_output d ! j) (input ! j)) [i..<n]\<rparr>,
      take i out @
          map (\<lambda>j. deadzone_axis s (dz_size d ! j) (last_output d ! j) (input ! j)) [i..<n])"
  using assms
proof (induction k arbitrary: i d out)
  case 0
  then have "i = n" by simp
  with 0 show ?case
    by (subst DeadzoneFilter_loop.simps) simp
next
  case (Suc k)
  then have lt: "i < n" by simp
  let ?v = "deadzone_axis s (dz_size d ! i) (last_output d ! i) (input ! i)"
  let ?d = "d\<lparr>last_output := (last_output d)[i := ?v]\<rparr>"
  have step: "DeadzoneFilter_loop s input i (d, out) =
        DeadzoneFilter_loop s input (i + 1) (?d, out[i := ?v])"
    using lt Suc.prems by (subst DeadzoneFilter_loop.simps) (simp add: DeadzoneFilter_body_eq)
  have ih: "DeadzoneFilter_loop s input (i + 1) (?d, out[i := ?v]) =
     (?d\<lparr>last_output := take (i + 1) (last_output ?d) @
          map (\<lambda>j. deadzone_axis s (dz_size ?d ! j) (last_output ?d ! j) (input ! j)) [i + 1..<n]\<rparr>,
      take (i + 1) (out[i := ?v]) @
          map (\<lambda>j. deadzone_axis s (dz_size ?d ! j) (last_output ?d ! j) (input ! j)) [i + 1..<n])"
    using Suc.prems lt by (intro Suc.IH) simp_all
  have tk: "\<And>xs::real list. length xs = n \<Longrightarrow> take (Suc i) (xs[i := ?v]) = take i xs @ [?v]"
    using lt by (simp add: take_Suc_conv_app_nth)
  have mp: "map (\<lambda>j. deadzone_axis s (dz_size ?d ! j) (last_output ?d ! j) (input ! j)) [i + 1..<n]
          = map (\<lambda>j. deadzone_axis s (dz_size d ! j) (last_output d ! j) (input ! j)) [i + 1..<n]"
    by (rule map_cong) simp_all
  have up: "[i..<n] = i # [i + 1..<n]"
    using lt by (simp add: upt_conv_Cons)
  show ?case
    unfolding step ih mp up using Suc.prems by (simp add: tk)
qed

lemma DeadzoneFilter_filter_closed:
  assumes "length (last_output d) = length input"
  shows "DeadzoneFilter_filter s d input =
     (d\<lparr>last_output := map (\<lambda>j. deadzone_axis s (dz_size d ! j) (last_output d ! j) (input ! j)) [0..<length input]\<rparr>,
      map (\<lambda>j. deadzone_axis s (dz_size d ! j) (last_output d ! j) (input ! j)) [0..<length input])"
  unfolding DeadzoneFilter_filter_def
  using DeadzoneFilter_loop_closed[of input "length input" d "Zero_v (length input)" 0 "length input" s] assms
  by (simp add: Zero_v_def)

lemma pow_d_nonneg: "0 \<le> pow_d x y"
  by (simp add: pow_d_def)

lemma deadzone_axis_between:
  "min prev x \<le> deadzone_axis s dz prev x \<and> deadzone_axis s dz prev x \<le> max prev x"
proof (cases "dz > 0")
  case False
  then show ?thesis by (simp add: deadzone_axis_def)
next
  case True
  define f where "f = pow_d (\<bar>x - prev\<bar> / dz) (deadzone_exponent s)"
  define g where "g = f / (f + 1)"
  have f0: "0 \<le> f" by (simp add: f_def pow_d_nonneg)
  then have g0: "0 \<le> g" and g1: "g \<le> 1" by (simp_all add: g_def)
  have eq: "deadzone_axis s dz prev x = prev + g * (x - prev)"
    using True by (simp add: deadzone_axis_def Let_def f_def g_def)
  show ?thesis
  proof (cases "prev \<le> x")
    case True
    then have "0 \<le> g * (x - prev)" "0 \<le> (1 - g) * (x - prev)"
      using g0 g1 by simp_all
    then show ?thesis using True eq by (simp add: algebra_simps)
  next
    case False
    then have "g * (x - prev) \<le> 0" "(1 - g) * (x - prev) \<le> 0"
      using g0 g1 by (simp_all add: mult_nonneg_nonpos)
    then show ?thesis using False eq by (simp add: algebra_simps)
  qed
qed


text \<open>
  C9.  On an axis \<open>i\<close> whose deadzone size is zero (or negative), the output of
  \<^verbatim>\<open>DeadzoneFilter::filter\<close> is the input at \<open>i\<close>, and \<open>last_output\<close> at \<open>i\<close> is set to it.
\<close>

theorem deadzone_disabled_axis_passes_input:
  assumes "length input = 6" and "length (last_output d) = 6" and "i < 6"
    and "dz_size d ! i \<le> 0"
  shows "snd (DeadzoneFilter_filter s d input) ! i = input ! i \<and>
         last_output (fst (DeadzoneFilter_filter s d input)) ! i = input ! i"
  using assms by (simp add: DeadzoneFilter_filter_closed deadzone_axis_def)

theorem deadzone_disabled_axis_passes_input_witness:
  "length [5, 6, 7, 8, 9, 10 :: real] = 6 \<and> length (last_output example_deadzone) = 6 \<and>
   (0::nat) < 6 \<and> dz_size example_deadzone ! 0 \<le> 0 \<and>
   snd (DeadzoneFilter_filter example_settings example_deadzone [5, 6, 7, 8, 9, 10]) ! 0 = 5 \<and>
   last_output (fst (DeadzoneFilter_filter example_settings example_deadzone [5, 6, 7, 8, 9, 10])) ! 0 = 5"
  using deadzone_disabled_axis_passes_input [of "[5, 6, 7, 8, 9, 10]" example_deadzone 0 example_settings]
  by (simp add: example_deadzone_def)

text \<open>
  Rounding at values of a known binade: with \<open>2\<^sup>e \<le> \<bar>x\<bar> < 2\<^sup>e\<^sup>+\<^sup>1\<close> the spacing is \<open>2\<^sup>e\<^sup>-\<^sup>5\<^sup>2\<close>.
\<close>

lemma floor_log2:
  assumes "2 powr of_int e \<le> \<bar>x\<bar>" and "\<bar>x\<bar> < 2 powr of_int (e + 1)"
  shows "\<lfloor>log 2 \<bar>x\<bar>\<rfloor> = e"
proof -
  have pos: "0 < \<bar>x\<bar>"
    using assms(1) powr_gt_zero [of 2 "of_int e"] by linarith
  have "of_int e \<le> log 2 \<bar>x\<bar>"
    using assms(1) pos by (simp add: le_log_iff)
  moreover have "log 2 \<bar>x\<bar> < of_int e + 1"
    using assms(2) pos by (simp add: log_less_iff)
  ultimately show ?thesis
    by (rule floor_unique)
qed

lemma to_double_normal:
  assumes "2 powr of_int e \<le> \<bar>x\<bar>" and "\<bar>x\<bar> < 2 powr of_int (e + 1)" and "- 1022 \<le> e"
  shows "to_double x =
     (let y = 2 powr (of_int e - 52) * of_int (round_half_even (x / 2 powr (of_int e - 52)))
      in if DBL_MAX < y then PlusInf else if y < - DBL_MAX then MinusInf else Finite y)"
proof -
  have "x \<noteq> 0"
    using assms(1) powr_gt_zero [of 2 "of_int e"] by auto
  moreover have "ulp x = 2 powr (of_int e - 52)"
    using floor_log2 [OF assms(1,2)] assms(3) by (simp add: ulp_def max_def)
  ultimately show ?thesis
    by (simp add: to_double_def)
qed

lemma to_double_zero: "to_double 0 = Finite 0"
  by (simp add: to_double_def)

lemma to_double_one: "to_double 1 = Finite 1"
  by (subst to_double_normal [of 0])
     (simp_all add: round_half_even_def DBL_MAX_def Let_def powr_neg_numeral)

text \<open>
  The steps of the example on axis 0.  \<open>1 - 2\<^sup>6\<^sup>0\<close> lies between \<open>2\<^sup>5\<^sup>9\<close> and \<open>2\<^sup>6\<^sup>0\<close>, where
  the doubles are 128 apart, and rounds to \<open>- 2\<^sup>6\<^sup>0\<close>; \<open>2\<^sup>2\<^sup>4\<^sup>0 + 1\<close> rounds to \<open>2\<^sup>2\<^sup>4\<^sup>0\<close>, the
  doubles there being \<open>2\<^sup>1\<^sup>8\<^sup>8\<close> apart.
\<close>

lemma to_double_delta: "to_double (1 - 2 ^ 60) = Finite (- (2 ^ 60))"
  by (subst to_double_normal [of 59]) (simp_all add: round_half_even_def DBL_MAX_def Let_def)

lemma to_double_quotient: "to_double (2 ^ 60) = Finite (2 ^ 60)"
  by (subst to_double_normal [of 60]) (simp_all add: round_half_even_def DBL_MAX_def Let_def)

lemma to_double_f: "to_double (2 ^ 240) = Finite (2 ^ 240)"
  by (subst to_double_normal [of 240]) (simp_all add: round_half_even_def DBL_MAX_def Let_def)

lemma to_double_f_plus_1: "to_double (2 ^ 240 + 1) = Finite (2 ^ 240)"
  by (subst to_double_normal [of 240]) (simp_all add: round_half_even_def DBL_MAX_def Let_def)

lemma to_double_response: "to_double (- (2 ^ 60)) = Finite (- (2 ^ 60))"
  by (subst to_double_normal [of 60]) (simp_all add: round_half_even_def DBL_MAX_def Let_def)

lemma example_body_double:
  "DeadzoneFilter_body_double example_settings example_input_double 0
     (example_deadzone_double, replicate 6 (Finite 0)) =
   (example_deadzone_double
      \<lparr>last_output_d := [Finite 0, Finite 0, Finite 0, Finite 0, Finite 0, Finite 0]\<rparr>,
    [Finite 0, Finite 0, Finite 0, Finite 0, Finite 0, Finite 0])"
proof -
  have e: "deadzone_exponent example_settings = 4"
    by (simp add: example_settings_def)
  show ?thesis
    unfolding DeadzoneFilter_body_double_def Let_def e
    using to_double_zero to_double_delta to_double_quotient to_double_f to_double_f_plus_1
      to_double_one to_double_response
    by (simp add: example_deadzone_double_def example_input_double_def d_sub_def
        eval_nat_numeral)
qed

lemma example_filter_double:
  "DeadzoneFilter_filter_double example_settings example_deadzone_double example_input_double =
     (example_deadzone_double
        \<lparr>last_output_d := [Finite 0, Finite 0, Finite 0, Finite 0, Finite 0, Finite 0]\<rparr>,
      [Finite 0, Finite 0, Finite 0, Finite 0, Finite 0, Finite 0])"
proof -
  have len: "length example_input_double = 6"
    by (simp add: example_input_double_def)
  have "DeadzoneFilter_filter_double example_settings example_deadzone_double example_input_double =
        DeadzoneFilter_loop_double example_settings example_input_double 1
          (DeadzoneFilter_body_double example_settings example_input_double 0
             (example_deadzone_double, replicate 6 (Finite 0)))"
    unfolding DeadzoneFilter_filter_double_def len
    by (subst DeadzoneFilter_loop_double.simps) (simp add: len)
  also have "\<dots> = DeadzoneFilter_loop_double example_settings example_input_double 1
          (example_deadzone_double
             \<lparr>last_output_d := [Finite 0, Finite 0, Finite 0, Finite 0, Finite 0, Finite 0]\<rparr>,
           [Finite 0, Finite 0, Finite 0, Finite 0, Finite 0, Finite 0])"
    by (simp only: example_body_double)
  also have "\<dots> = (example_deadzone_double
        \<lparr>last_output_d := [Finite 0, Finite 0, Finite 0, Finite 0, Finite 0, Finite 0]\<rparr>,
      [Finite 0, Finite 0, Finite 0, Finite 0, Finite 0, Finite 0])"
    by (simp add: DeadzoneFilter_loop_double.simps DeadzoneFilter_body_double_def Let_def
        example_input_double_def example_deadzone_double_def eval_nat_numeral)
  finally show ?thesis .
qed

text \<open>
  C10, as the claim states it, fails in the doubles of the code.  With a deadzone of size 1 on
  axis 0, a previous output of \<open>2\<^sup>6\<^sup>0\<close> and an input of 1 there, and the exponent 4:
  \<^verbatim>\<open>delta\<close> is \<open>1 - 2\<^sup>6\<^sup>0\<close> rounded, that is \<open>- 2\<^sup>6\<^sup>0\<close>; \<^verbatim>\<open>f\<close> is \<open>2\<^sup>2\<^sup>4\<^sup>0\<close>; \<^verbatim>\<open>f + 1.\<close> rounds
  to \<open>f\<close>, so \<^verbatim>\<open>f / (f + 1.)\<close> is 1 and not below it; \<^verbatim>\<open>response\<close> is \<open>- 2\<^sup>6\<^sup>0\<close> and the
  output \<open>2\<^sup>6\<^sup>0 - 2\<^sup>6\<^sup>0 = 0\<close>.  The output 0 is below the input 1: it has passed the input and
  lies outside the closed interval between the input and the previous output.
\<close>

theorem deadzone_output_double_counterexample:
  "last_output_d example_deadzone_double ! 0 = Finite (2 ^ 60) \<and>
   dz_size_d example_deadzone_double ! 0 = Finite 1 \<and>
   example_input_double ! 0 = Finite 1 \<and>
   deadzone_exponent example_settings = 4 \<and>
   snd (DeadzoneFilter_filter_double example_settings example_deadzone_double
          example_input_double) ! 0 = Finite 0 \<and>
   \<not> d_between (last_output_d example_deadzone_double ! 0) (example_input_double ! 0)
        (snd (DeadzoneFilter_filter_double example_settings example_deadzone_double
                example_input_double) ! 0)"
  unfolding example_filter_double
  by (simp add: example_deadzone_double_def example_input_double_def example_settings_def
      d_between_def)

text \<open>
  C10, amended.  Over exact real arithmetic (each double read as the real number it stands
  for), on every axis the output of \<^verbatim>\<open>DeadzoneFilter::filter\<close> lies between the previous
  \<open>last_output\<close> and the input, both included; where the input equals the previous
  \<open>last_output\<close>, the output equals it too.  The exponent \<^verbatim>\<open>deadzone_exponent\<close> is not
  negative, the range on which \<open>pow_d\<close> is the \<^verbatim>\<open>pow\<close> of the C library.
\<close>

theorem deadzone_output_between:
  assumes "length input = 6" and "length (last_output d) = 6" and "i < 6"
    and "0 \<le> deadzone_exponent s"
  shows "min (last_output d ! i) (input ! i) \<le> snd (DeadzoneFilter_filter s d input) ! i \<and>
         snd (DeadzoneFilter_filter s d input) ! i \<le> max (last_output d ! i) (input ! i) \<and>
         (input ! i = last_output d ! i \<longrightarrow>
            snd (DeadzoneFilter_filter s d input) ! i = last_output d ! i)"
proof -
  have out: "snd (DeadzoneFilter_filter s d input) ! i =
               deadzone_axis s (dz_size d ! i) (last_output d ! i) (input ! i)"
    using assms(1-3) by (simp add: DeadzoneFilter_filter_closed)
  have "input ! i = last_output d ! i \<Longrightarrow>
          deadzone_axis s (dz_size d ! i) (last_output d ! i) (input ! i) = last_output d ! i"
    by (simp add: deadzone_axis_def)
  then show ?thesis
    unfolding out using deadzone_axis_between [of "last_output d ! i" "input ! i" s "dz_size d ! i"]
    by simp
qed

theorem deadzone_output_between_witness:
  "length [5, 2, 0, 8, 9, 10 :: real] = 6 \<and> length (last_output example_deadzone) = 6 \<and>
   (1::nat) < 6 \<and> (2::nat) < 6 \<and> 0 \<le> deadzone_exponent example_settings \<and>
   last_output example_deadzone ! 1 = 0 \<and>
   snd (DeadzoneFilter_filter example_settings example_deadzone [5, 2, 0, 8, 9, 10]) ! 1 = 32 / 17 \<and>
   [5, 2, 0, 8, 9, 10] ! 2 = last_output example_deadzone ! 2 \<and>
   snd (DeadzoneFilter_filter example_settings example_deadzone [5, 2, 0, 8, 9, 10]) ! 2 = 0"
proof -
  have e: "0 \<le> deadzone_exponent example_settings"
    by (simp add: example_settings_def)
  have l: "length [5, 2, 0, 8, 9, 10 :: real] = 6" "length (last_output example_deadzone) = 6"
    by (simp_all add: example_deadzone_def)
  have v: "snd (DeadzoneFilter_filter example_settings example_deadzone [5, 2, 0, 8, 9, 10]) ! 1 =
             32 / 17"
    using l by (simp add: DeadzoneFilter_filter_closed deadzone_axis_def example_deadzone_def
        example_settings_def pow_d_def)
  show ?thesis
    using deadzone_output_between [OF l _ e, of 1] deadzone_output_between [OF l _ e, of 2] e v
    by (simp add: example_deadzone_def)
qed

section \<open>Reset and the first tick\<close>

lemma KalmanFilter_init_const: "KalmanFilter_init k = KalmanFilter_init k'"
  by (cases k, cases k') (simp add: KalmanFilter_init_def Let_def)

lemma KalmanProcessNoiseScaler_init_const:
  "KalmanProcessNoiseScaler_init sc = KalmanProcessNoiseScaler_init sc'"
  by (cases sc, cases sc') (simp add: KalmanProcessNoiseScaler_init_def Let_def)

lemma DeadzoneFilter_reset_const: "DeadzoneFilter_reset d = DeadzoneFilter_reset d'"
  by (cases d, cases d') (simp add: DeadzoneFilter_reset_def)

lemma zero_last_input:
  "length v = 6 \<Longrightarrow> fold (\<lambda>i v. v[i := 0]) [0..<6] v = Zero_v 6"
  by (auto simp: upt_rec Zero_v_def eval_nat_numeral length_Suc_conv)

lemma reset_first_run: "first_run (FTNoIR_Filter_reset s st)"
  by (simp add: FTNoIR_Filter_reset_def Let_def fill_transition_matrix_def)

lemma reset_prev_slider_pos:
  "prev_slider_pos (FTNoIR_Filter_reset s st) = (noise_pos_slider_value s, noise_rot_slider_value s)"
  by (simp add: FTNoIR_Filter_reset_def Let_def fill_transition_matrix_def)

lemma reset_timer: "timer (FTNoIR_Filter_reset s st) = timer st"
  by (simp add: FTNoIR_Filter_reset_def Let_def fill_transition_matrix_def)

lemma reset_last_input:
  "length (last_input st) = 6 \<Longrightarrow> last_input (FTNoIR_Filter_reset s st) = Zero_v 6"
  by (simp add: FTNoIR_Filter_reset_def Let_def fill_transition_matrix_def zero_last_input)

lemma reset_dt_since_last_input: "dt_since_last_input (FTNoIR_Filter_reset s st) = 0"
  by (simp add: FTNoIR_Filter_reset_def Let_def fill_transition_matrix_def)

lemma reset_minimal_state_var:
  "minimal_state_var (FTNoIR_Filter_reset s st) = Constant_v 6 DBL_MAX"
  by (simp add: FTNoIR_Filter_reset_def Let_def fill_transition_matrix_def)

lemma reset_dz_filter:
  "dz_filter (FTNoIR_Filter_reset s st) = \<lparr>last_output = Zero_v 6, dz_size = Zero_v 6\<rparr>"
  by (cases "dz_filter st")
     (simp add: FTNoIR_Filter_reset_def Let_def fill_transition_matrix_def DeadzoneFilter_reset_def)

lemma reset_kf_const: "kf (FTNoIR_Filter_reset s st) = kf (FTNoIR_Filter_reset s st')"
  using KalmanFilter_init_const [of "kf st" "kf st'"]
    KalmanProcessNoiseScaler_init_const [of "kf_adaptive_process_noise_cov st" "kf_adaptive_process_noise_cov st'"]
  by (simp add: FTNoIR_Filter_reset_def Let_def fill_transition_matrix_def)

lemma reset_scaler_const:
  "kf_adaptive_process_noise_cov (FTNoIR_Filter_reset s st) =
   kf_adaptive_process_noise_cov (FTNoIR_Filter_reset s st')"
  using KalmanProcessNoiseScaler_init_const [of "kf_adaptive_process_noise_cov st" "kf_adaptive_process_noise_cov st'"]
  by (simp add: FTNoIR_Filter_reset_def Let_def fill_transition_matrix_def)

lemma reset_const:
  assumes "length (last_input st) = 6" and "length (last_input st') = 6"
  shows "FTNoIR_Filter_reset s st = (FTNoIR_Filter_reset s st')\<lparr>timer := timer st\<rparr>"
  by (rule FTNoIR_Filter.equality)
     (simp_all add: reset_first_run reset_prev_slider_pos reset_timer reset_last_input assms
        reset_dt_since_last_input reset_minimal_state_var reset_dz_filter
        reset_kf_const [of s st st'] reset_scaler_const [of s st st'])

lemma Timer_start_const: "Timer_start now t = \<lparr>started_at = now\<rparr>"
  by (cases t) (simp add: Timer_start_def)

lemma filter_first_run:
  "first_run (check_sliders s st) \<Longrightarrow>
   FTNoIR_Filter_filter inverse_m s t1 t2 st input_buf output_buf =
     ((check_sliders s st)\<lparr>timer := \<lparr>started_at = t1\<rparr>, first_run := False\<rparr>, output_buf)"
  by (simp add: FTNoIR_Filter_filter_def Let_def Timer_start_const)

text \<open>
  C4.  The first invocation of \<^verbatim>\<open>FTNoIR_Filter::filter\<close> after a reset starts the timer,
  clears \<open>first_run\<close> and returns: the output buffer is the one it was given and every
  other member (the Kalman filter, the scaler, the deadzone filter, the last input) is as the
  reset left it.  This holds when the object was reset before the call and when the call
  itself performs the reset because a slider has moved.
\<close>

theorem first_tick_is_warm_up:
  "(first_run st \<and> \<not> sliders_changed s st \<longrightarrow>
      FTNoIR_Filter_filter inverse_m s t1 t2 st input_buf output_buf =
        (st\<lparr>timer := Timer_start t1 (timer st), first_run := False\<rparr>, output_buf)) \<and>
   (sliders_changed s st \<longrightarrow>
      FTNoIR_Filter_filter inverse_m s t1 t2 st input_buf output_buf =
        ((FTNoIR_Filter_reset s st)\<lparr>timer := Timer_start t1 (timer st), first_run := False\<rparr>,
         output_buf))"
  by (simp add: filter_first_run check_sliders_def reset_first_run Timer_start_const)


theorem first_tick_is_warm_up_witness:
  "first_run (FTNoIR_Filter_new example_settings example_raw) \<and>
   \<not> sliders_changed example_settings (FTNoIR_Filter_new example_settings example_raw) \<and>
   FTNoIR_Filter_filter inverse_diagonal example_settings 0 0
       (FTNoIR_Filter_new example_settings example_raw) [1, 2, 3, 4, 5, 6] [7, 7, 7, 7, 7, 7] =
     ((FTNoIR_Filter_new example_settings example_raw)\<lparr>timer := \<lparr>started_at = 0\<rparr>,
         first_run := False\<rparr>, [7, 7, 7, 7, 7, 7]) \<and>
   sliders_changed example_settings example_raw \<and>
   FTNoIR_Filter_filter inverse_diagonal example_settings 0 0
       example_raw [1, 2, 3, 4, 5, 6] [7, 7, 7, 7, 7, 7] =
     ((FTNoIR_Filter_reset example_settings example_raw)\<lparr>timer := \<lparr>started_at = 0\<rparr>,
         first_run := False\<rparr>, [7, 7, 7, 7, 7, 7])"
proof -
  have a: "first_run (FTNoIR_Filter_new example_settings example_raw)"
    by (simp add: FTNoIR_Filter_new_def reset_first_run)
  have b: "\<not> sliders_changed example_settings (FTNoIR_Filter_new example_settings example_raw)"
    by (simp add: FTNoIR_Filter_new_def sliders_changed_def reset_prev_slider_pos)
  have c: "sliders_changed example_settings example_raw"
    by (simp add: sliders_changed_def example_settings_def example_raw_def)
  show ?thesis
    using a b c
      first_tick_is_warm_up [of "FTNoIR_Filter_new example_settings example_raw"
        example_settings inverse_diagonal 0 0 "[1, 2, 3, 4, 5, 6]" "[7, 7, 7, 7, 7, 7]"]
      first_tick_is_warm_up [of example_raw example_settings inverse_diagonal 0 0
        "[1, 2, 3, 4, 5, 6]" "[7, 7, 7, 7, 7, 7]"]
    by (simp add: Timer_start_const)
qed

lemma example_raw_last_input: "length (last_input example_raw) = 6"
  by (simp add: example_raw_def Zero_v_def)

lemma new_not_changed: "\<not> sliders_changed s (FTNoIR_Filter_new s raw)"
  by (simp add: FTNoIR_Filter_new_def sliders_changed_def reset_prev_slider_pos)

lemma warm_up_result:
  "FTNoIR_Filter_filter inverse_m s t1 t2 (FTNoIR_Filter_new s raw) input_buf output_buf =
     ((FTNoIR_Filter_new s raw)\<lparr>timer := \<lparr>started_at = t1\<rparr>, first_run := False\<rparr>, output_buf)"
proof -
  have "check_sliders s (FTNoIR_Filter_new s raw) = FTNoIR_Filter_new s raw"
    using new_not_changed [of s raw] by (simp add: check_sliders_def)
  moreover have "first_run (FTNoIR_Filter_new s raw)"
    by (simp add: FTNoIR_Filter_new_def reset_first_run)
  ultimately show ?thesis
    using filter_first_run [of s "FTNoIR_Filter_new s raw" inverse_m t1 t2 input_buf output_buf]
    by simp
qed

lemma warm_up_state:
  "fst (FTNoIR_Filter_filter inverse_m s t1 t2 (FTNoIR_Filter_new s raw) input_buf output_buf) =
     (FTNoIR_Filter_new s raw)\<lparr>timer := \<lparr>started_at = t1\<rparr>, first_run := False\<rparr>"
  by (simp add: warm_up_result)

lemma example_warm_eq:
  "example_warm = (FTNoIR_Filter_new example_settings example_raw)\<lparr>timer := \<lparr>started_at = 0\<rparr>, first_run := False\<rparr>"
  by (simp add: example_warm_def warm_up_state)

lemma example_warm_running:
  "\<not> first_run example_warm" "\<not> sliders_changed example_settings example_warm"
  using new_not_changed [of example_settings example_raw]
  by (simp_all add: example_warm_eq sliders_changed_def)


section \<open>Ticks after the first, and new measurements\<close>

lemma cwiseNotEqual_any_iff:
  "length u = length v \<Longrightarrow> cwiseNotEqual_any u v \<longleftrightarrow> u \<noteq> v"
  by (induction u v rule: list_induct2) (auto simp: cwiseNotEqual_any_def)

lemma map_pose_6: "length b = 6 \<Longrightarrow> map_pose b = b"
  by (simp add: map_pose_def)

lemma loop_dz_size:
  "dz_size (fst (DeadzoneFilter_loop s input i acc)) = dz_size (fst acc)"
proof (induction s input i acc rule: DeadzoneFilter_loop.induct)
  case (1 s input i acc)
  show ?case
  proof (cases "i < length input")
    case True
    then show ?thesis
      using 1 by (subst DeadzoneFilter_loop.simps) (simp add: DeadzoneFilter_body_def Let_def)
  next
    case False
    then show ?thesis by (subst DeadzoneFilter_loop.simps) simp
  qed
qed

lemma filter_dz_size: "dz_size (fst (DeadzoneFilter_filter s d input)) = dz_size d"
  by (simp add: DeadzoneFilter_filter_def loop_dz_size)

lemma diff_min_nonneg:
  "x \<in> set (vec_sub v (cwiseMin m v)) \<Longrightarrow> 0 \<le> x"
  by (auto simp: vec_sub_def cwiseMin_def set_zip)

lemma sqrt_scale_nonneg:
  assumes "0 \<le> a" and "y \<in> set (vec_scale (cwiseSqrt (vec_sub v (cwiseMin m v))) a)"
  shows "0 \<le> y"
  using assms diff_min_nonneg [of _ v m] by (auto simp: vec_scale_def cwiseSqrt_def)

lemma update_deadzone_size_fields:
  "kf (update_deadzone_size s st) = kf st"
  "minimal_state_var (update_deadzone_size s st) =
     cwiseMin (minimal_state_var st) (head 6 (diagonal (state_cov (kf st))))"
  "dz_size (dz_filter (update_deadzone_size s st)) =
     vec_scale (cwiseSqrt (vec_sub (head 6 (diagonal (state_cov (kf st))))
        (cwiseMin (minimal_state_var st) (head 6 (diagonal (state_cov (kf st)))))))
        (deadzone_scale s)"
  "last_output (dz_filter (update_deadzone_size s st)) = last_output (dz_filter st)"
  "last_input (update_deadzone_size s st) = last_input st"
  "kf_adaptive_process_noise_cov (update_deadzone_size s st) = kf_adaptive_process_noise_cov st"
  by (simp_all add: update_deadzone_size_def Let_def)

lemma do_kalman_filter_minimal:
  "minimal_state_var (fst (do_kalman_filter inverse_m s st input dt new_input)) = minimal_state_var st"
  by (simp add: do_kalman_filter_def Let_def fill_transition_matrix_def)

lemma filter_running_fields:
  assumes "\<not> first_run st" and "\<not> sliders_changed s st"
  shows "kf (fst (FTNoIR_Filter_filter inverse_m s t1 t2 st input_buf output_buf)) =
           kf (running_tick_kalman inverse_m s t1 t2 st input_buf)"
    and "minimal_state_var (fst (FTNoIR_Filter_filter inverse_m s t1 t2 st input_buf output_buf)) =
           cwiseMin (minimal_state_var st)
             (head 6 (diagonal (state_cov (kf (running_tick_kalman inverse_m s t1 t2 st input_buf)))))"
    and "dz_size (dz_filter (fst (FTNoIR_Filter_filter inverse_m s t1 t2 st input_buf output_buf))) =
           vec_scale (cwiseSqrt (vec_sub
               (head 6 (diagonal (state_cov (kf (running_tick_kalman inverse_m s t1 t2 st input_buf)))))
               (cwiseMin (minimal_state_var st)
                  (head 6 (diagonal (state_cov (kf (running_tick_kalman inverse_m s t1 t2 st input_buf))))))))
             (deadzone_scale s)"
    and "last_input (fst (FTNoIR_Filter_filter inverse_m s t1 t2 st input_buf output_buf)) =
           (if new_measurement st input_buf then map_pose input_buf else last_input st)"
  using assms
  by (simp_all add: FTNoIR_Filter_filter_def check_sliders_def Let_def running_tick_kalman_def
      update_deadzone_size_fields filter_dz_size do_kalman_filter_minimal
      do_kalman_filter_def fill_transition_matrix_def)

text \<open>
  C6, as the claim states it, fails: the warm-up tick returns before the input is stored, so the
  stored last input is still the zero pose of \<^verbatim>\<open>reset()\<close>, and a second tick that carries
  the first tick's input \<open>[1, 0, 0, 0, 0, 0]\<close> registers as a new measurement.
\<close>

theorem second_tick_same_input_counterexample:
  "new_measurement
     (fst (FTNoIR_Filter_filter inverse_diagonal example_settings 0 0
             (FTNoIR_Filter_new example_settings example_raw)
             [1, 0, 0, 0, 0, 0] [0, 0, 0, 0, 0, 0]))
     [1, 0, 0, 0, 0, 0]"
  unfolding warm_up_state
  by (simp add: FTNoIR_Filter_new_def new_measurement_def reset_last_input
      example_raw_last_input cwiseNotEqual_any_def map_pose_def Zero_v_def eval_nat_numeral)

text \<open>
  C6, amended.  After \<^verbatim>\<open>reset()\<close> and the warm-up tick, whatever the input \<open>x\<close> of that
  tick was, the stored last input is the zero pose, and the second tick registers as a new
  measurement exactly when its input \<open>y\<close> is not the zero pose.  After the second tick the
  stored last input is \<open>y\<close>, so a third tick registers exactly when its input differs from the
  second tick's.  The settings are the same at the three ticks.
\<close>

theorem new_measurement_after_warm_up:
  assumes "length (last_input raw) = 6" and "length y = 6"
  shows "(let st1 = fst (FTNoIR_Filter_filter inverse_m s t1 t2 (FTNoIR_Filter_new s raw) x out1);
              st2 = fst (FTNoIR_Filter_filter inverse_m s t3 t4 st1 y out2)
          in last_input st1 = Zero_v 6 \<and>
             (new_measurement st1 y \<longleftrightarrow> y \<noteq> Zero_v 6) \<and>
             last_input st2 = y \<and>
             (\<forall>z. length z = 6 \<longrightarrow> (new_measurement st2 z \<longleftrightarrow> z \<noteq> y)))"
proof -
  define st1 where "st1 = fst (FTNoIR_Filter_filter inverse_m s t1 t2 (FTNoIR_Filter_new s raw) x out1)"
  define st2 where "st2 = fst (FTNoIR_Filter_filter inverse_m s t3 t4 st1 y out2)"
  have st1: "st1 = (FTNoIR_Filter_new s raw)\<lparr>timer := \<lparr>started_at = t1\<rparr>, first_run := False\<rparr>"
    by (simp add: st1_def warm_up_state)
  have li1: "last_input st1 = Zero_v 6"
    using assms(1) by (simp add: st1 FTNoIR_Filter_new_def reset_last_input)
  have run1: "\<not> first_run st1" "\<not> sliders_changed s st1"
    using new_not_changed [of s raw] by (simp_all add: st1 sliders_changed_def)
  have nm1: "new_measurement st1 y \<longleftrightarrow> y \<noteq> Zero_v 6"
    using assms(2) by (simp add: new_measurement_def li1 map_pose_6 cwiseNotEqual_any_iff Zero_v_def)
  have li2: "last_input st2 = y"
    unfolding st2_def filter_running_fields(4) [OF run1] using nm1 li1 assms(2)
    by (simp add: map_pose_6)
  have nm2: "\<And>z. length z = 6 \<Longrightarrow> new_measurement st2 z \<longleftrightarrow> z \<noteq> y"
    using assms(2) by (simp add: new_measurement_def li2 map_pose_6 cwiseNotEqual_any_iff)
  show ?thesis
    unfolding Let_def st1_def [symmetric] st2_def [symmetric] using li1 nm1 li2 nm2 by blast
qed

theorem new_measurement_after_warm_up_witness:
  "length (last_input example_raw) = 6 \<and> length [1, 0, 0, 0, 0, 0 :: real] = 6 \<and>
   new_measurement example_warm [1, 0, 0, 0, 0, 0] \<and>
   \<not> new_measurement example_warm [0, 0, 0, 0, 0, 0] \<and>
   \<not> new_measurement
       (fst (FTNoIR_Filter_filter inverse_diagonal example_settings 1 1 example_warm
               [1, 0, 0, 0, 0, 0] [0, 0, 0, 0, 0, 0])) [1, 0, 0, 0, 0, 0] \<and>
   new_measurement
       (fst (FTNoIR_Filter_filter inverse_diagonal example_settings 1 1 example_warm
               [1, 0, 0, 0, 0, 0] [0, 0, 0, 0, 0, 0])) [2, 0, 0, 0, 0, 0]"
proof -
  have l: "length [1, 0, 0, 0, 0, 0 :: real] = 6" "length [0, 0, 0, 0, 0, 0 :: real] = 6"
    by simp_all
  show ?thesis
    using new_measurement_after_warm_up [OF example_raw_last_input l(1),
        where x = "[1, 0, 0, 0, 0, 0]" and inverse_m = inverse_diagonal and s = example_settings
          and ?t1.0 = 0 and ?t2.0 = 0 and ?out1.0 = "[0, 0, 0, 0, 0, 0]"
          and ?t3.0 = 1 and ?t4.0 = 1 and ?out2.0 = "[0, 0, 0, 0, 0, 0]"]
      new_measurement_after_warm_up [OF example_raw_last_input l(2),
        where x = "[1, 0, 0, 0, 0, 0]" and inverse_m = inverse_diagonal and s = example_settings
          and ?t1.0 = 0 and ?t2.0 = 0 and ?out1.0 = "[0, 0, 0, 0, 0, 0]"
          and ?t3.0 = 1 and ?t4.0 = 1 and ?out2.0 = "[0, 0, 0, 0, 0, 0]"]
    by (simp add: Let_def example_warm_def [symmetric] example_raw_last_input Zero_v_def
        eval_nat_numeral)
qed

section \<open>Reset on a moved slider\<close>

text \<open>
  C7.  When a slider value differs from the one captured at the last reset, the next call of
  \<^verbatim>\<open>FTNoIR_Filter::filter\<close> resets first; the object after that reset is the freshly
  constructed one for the new settings in every member but the timer (the Kalman matrices and
  vectors, the scaler, the deadzone filter, \<open>minimal_state_var\<close>, \<open>last_input\<close>,
  \<open>first_run\<close>, \<open>dt_since_last_input\<close>, \<open>prev_slider_pos\<close>), and the call returns what
  the first call on the freshly constructed object returns, the timer included.  The two
  objects hold a \<^verbatim>\<open>PoseVector\<close> of six entries as \<open>last_input\<close>.
\<close>

theorem slider_change_resets_to_fresh:
  assumes "sliders_changed s st" and "length (last_input st) = 6" and "length (last_input raw) = 6"
  shows "check_sliders s st = FTNoIR_Filter_reset s st \<and>
         FTNoIR_Filter_reset s st = (FTNoIR_Filter_new s raw)\<lparr>timer := timer st\<rparr> \<and>
         FTNoIR_Filter_filter inverse_m s t1 t2 st input_buf output_buf =
           FTNoIR_Filter_filter inverse_m s t1 t2 (FTNoIR_Filter_new s raw) input_buf output_buf"
proof -
  have eq: "FTNoIR_Filter_reset s st = (FTNoIR_Filter_new s raw)\<lparr>timer := timer st\<rparr>"
    unfolding FTNoIR_Filter_new_def by (rule reset_const [OF assms(2,3)])
  have chk: "check_sliders s st = FTNoIR_Filter_reset s st"
    using assms(1) by (simp add: check_sliders_def)
  have fresh: "check_sliders s (FTNoIR_Filter_new s raw) = FTNoIR_Filter_new s raw"
    using new_not_changed [of s raw] by (simp add: check_sliders_def)
  have "FTNoIR_Filter_filter inverse_m s t1 t2 st input_buf output_buf =
          ((FTNoIR_Filter_reset s st)\<lparr>timer := \<lparr>started_at = t1\<rparr>, first_run := False\<rparr>, output_buf)"
    using filter_first_run [of s st] by (simp add: chk reset_first_run)
  moreover have "FTNoIR_Filter_filter inverse_m s t1 t2 (FTNoIR_Filter_new s raw) input_buf output_buf =
          ((FTNoIR_Filter_new s raw)\<lparr>timer := \<lparr>started_at = t1\<rparr>, first_run := False\<rparr>, output_buf)"
    by (rule warm_up_result)
  ultimately show ?thesis
    using eq chk by simp
qed


theorem slider_change_resets_to_fresh_witness:
  "sliders_changed example_settings_moved example_warm \<and>
   length (last_input example_warm) = 6 \<and> length (last_input example_raw) = 6 \<and>
   check_sliders example_settings_moved example_warm =
     FTNoIR_Filter_reset example_settings_moved example_warm \<and>
   FTNoIR_Filter_reset example_settings_moved example_warm =
     (FTNoIR_Filter_new example_settings_moved example_raw)\<lparr>timer := timer example_warm\<rparr> \<and>
   FTNoIR_Filter_filter inverse_diagonal example_settings_moved 2 2 example_warm
       [1, 0, 0, 0, 0, 0] [0, 0, 0, 0, 0, 0] =
     FTNoIR_Filter_filter inverse_diagonal example_settings_moved 2 2
       (FTNoIR_Filter_new example_settings_moved example_raw)
       [1, 0, 0, 0, 0, 0] [0, 0, 0, 0, 0, 0]"
proof -
  have a: "sliders_changed example_settings_moved example_warm"
    by (simp add: example_warm_eq sliders_changed_def FTNoIR_Filter_new_def
        reset_prev_slider_pos example_settings_moved_def example_settings_def)
  have b: "length (last_input example_warm) = 6"
    by (simp add: example_warm_eq FTNoIR_Filter_new_def reset_last_input
        example_raw_last_input Zero_v_def)
  show ?thesis
    using a b example_raw_last_input
      slider_change_resets_to_fresh [OF a b example_raw_last_input,
        of inverse_diagonal 2 2 "[1, 0, 0, 0, 0, 0]" "[0, 0, 0, 0, 0, 0]"]
    by simp
qed

section \<open>The size of the deadzone\<close>

text \<open>
  C8.  On a tick that is not the first, every component of the variance minus
  \<open>minimal_state_var\<close> is non-negative when the deadzone size is computed, because
  \<open>minimal_state_var\<close> has just been lowered to the component-wise minimum with that
  variance; \<open>dz_size\<close> is the square root of the difference times \<open>deadzone_scale\<close>, and each
  of its components is non-negative, for a \<open>deadzone_scale\<close> that is not negative.
\<close>

theorem deadzone_size_nonnegative:
  assumes "\<not> first_run st" and "\<not> sliders_changed s st" and "0 \<le> deadzone_scale s"
  shows "(let st' = fst (FTNoIR_Filter_filter inverse_m s t1 t2 st input_buf output_buf);
              variance = head 6 (diagonal (state_cov (kf st')))
          in (\<forall>x \<in> set (vec_sub variance (minimal_state_var st')). 0 \<le> x) \<and>
             dz_size (dz_filter st') =
               vec_scale (cwiseSqrt (vec_sub variance (minimal_state_var st'))) (deadzone_scale s) \<and>
             (\<forall>x \<in> set (dz_size (dz_filter st')). 0 \<le> x))"
  unfolding Let_def filter_running_fields [OF assms(1,2)]
  using diff_min_nonneg sqrt_scale_nonneg [OF assms(3)] by blast


theorem deadzone_size_nonnegative_witness:
  "\<not> first_run example_warm \<and> \<not> sliders_changed example_settings example_warm \<and>
   0 \<le> deadzone_scale example_settings \<and>
   list_all (\<lambda>x. 0 \<le> x)
     (dz_size (dz_filter (fst (FTNoIR_Filter_filter inverse_diagonal example_settings 1 1
        example_warm [1, 0, 0, 0, 0, 0] [0, 0, 0, 0, 0, 0]))))"
proof -
  have s: "0 \<le> deadzone_scale example_settings"
    by (simp add: example_settings_def)
  show ?thesis
    using deadzone_size_nonnegative [OF example_warm_running s, of inverse_diagonal 1 1
        "[1, 0, 0, 0, 0, 0]" "[0, 0, 0, 0, 0, 0]"] example_warm_running s
    by (simp add: Let_def list_all_iff)
qed


section \<open>The algebra of block matrices\<close>

text \<open>
  The operations of the filter on block matrices, each checked by evaluating both sides.
\<close>

lemmas mat_eval = Zero_m_def Zero_v_def set_elem_def mat_mul_def mat_vec_def transpose_m_def cols_m_def
  column_def dot_def mat_add_def mat_sub_def vec_add_def vec_sub_def smult_def outer_def diagonal_def trace_m_def
  head_def eval_nat_numeral upt_rec diag6_def hcat_def blocks_1x2_def blocks_2x1_def blocks_2x2_def
  tab6_def stack_def

lemma mul_2x2_2x2:
  "mat_mul (blocks_2x2 a b c d) (blocks_2x2 e f g h) = blocks_2x2 (\<lambda>i. a i * e i + b i * g i) (\<lambda>i. a i * f i + b i * h i) (\<lambda>i. c i * e i + d i * g i) (\<lambda>i. c i * f i + d i * h i)"
  by (simp add: mat_eval)

lemma transpose_2x2:
  "transpose_m (blocks_2x2 a b c d) = blocks_2x2 a c b d"
  by (simp add: mat_eval)

lemma add_2x2:
  "mat_add (blocks_2x2 a b c d) (blocks_2x2 e f g h) = blocks_2x2 (\<lambda>i. a i + e i) (\<lambda>i. b i + f i) (\<lambda>i. c i + g i) (\<lambda>i. d i + h i)"
  by (simp add: mat_eval)

lemma sub_2x2:
  "mat_sub (blocks_2x2 a b c d) (blocks_2x2 e f g h) = blocks_2x2 (\<lambda>i. a i - e i) (\<lambda>i. b i - f i) (\<lambda>i. c i - g i) (\<lambda>i. d i - h i)"
  by (simp add: mat_eval)

lemma smult_2x2:
  "smult x (blocks_2x2 a b c d) = blocks_2x2 (\<lambda>i. x * a i) (\<lambda>i. x * b i) (\<lambda>i. x * c i) (\<lambda>i. x * d i)"
  by (simp add: mat_eval)

lemma mul_1x2_2x2:
  "mat_mul (blocks_1x2 a b) (blocks_2x2 e f g h) = blocks_1x2 (\<lambda>i. a i * e i + b i * g i) (\<lambda>i. a i * f i + b i * h i)"
  by (simp add: mat_eval)

lemma transpose_1x2:
  "transpose_m (blocks_1x2 a b) = blocks_2x1 a b"
  by (simp add: mat_eval)

lemma mul_1x2_2x1:
  "mat_mul (blocks_1x2 a b) (blocks_2x1 e g) = diag6 (\<lambda>i. a i * e i + b i * g i)"
  by (simp add: mat_eval)

lemma add_diag6:
  "mat_add (diag6 a) (diag6 e) = diag6 (\<lambda>i. a i + e i)"
  by (simp add: mat_eval)

lemma mul_2x2_2x1:
  "mat_mul (blocks_2x2 a b c d) (blocks_2x1 e g) = blocks_2x1 (\<lambda>i. a i * e i + b i * g i) (\<lambda>i. c i * e i + d i * g i)"
  by (simp add: mat_eval)

lemma mul_2x1_diag6:
  "mat_mul (blocks_2x1 a c) (diag6 e) = blocks_2x1 (\<lambda>i. a i * e i) (\<lambda>i. c i * e i)"
  by (simp add: mat_eval)

lemma mul_2x1_1x2:
  "mat_mul (blocks_2x1 a c) (blocks_1x2 e f) = blocks_2x2 (\<lambda>i. a i * e i) (\<lambda>i. a i * f i) (\<lambda>i. c i * e i) (\<lambda>i. c i * f i)"
  by (simp add: mat_eval)

lemma mat_vec_2x2:
  "mat_vec (blocks_2x2 a b c d) (stack x v) = stack (\<lambda>i. a i * x i + b i * v i) (\<lambda>i. c i * x i + d i * v i)"
  by (simp add: mat_eval)

lemma mat_vec_1x2:
  "mat_vec (blocks_1x2 a b) (stack x v) = tab6 (\<lambda>i. a i * x i + b i * v i)"
  by (simp add: mat_eval)

lemma mat_vec_2x1:
  "mat_vec (blocks_2x1 a c) (tab6 y) = stack (\<lambda>i. a i * y i) (\<lambda>i. c i * y i)"
  by (simp add: mat_eval)

lemma diagonal_2x2:
  "diagonal (blocks_2x2 a b c d) = stack a d"
  by (simp add: mat_eval)

lemma head_stack:
  "head 6 (stack x v) = tab6 x"
  by (simp add: mat_eval)

lemma trace_diag6:
  "trace_m (diag6 a) = a 0 + a 1 + a 2 + a 3 + a 4 + a 5"
  by (simp add: mat_eval)

lemma fill_process_noise_2x2:
  "fill_process_noise_cov_matrix s (blocks_2x2 a b c d) dt = process_noise_blocks s dt"
  by (simp add: mat_eval fill_process_noise_cov_matrix_def fill_block_def Let_def process_noise_blocks_def noise_diagonal_def)

lemma fill_transition_2x2:
  "fold (\<lambda>i k. k\<lparr>transition_matrix := set_elem (transition_matrix k) i (i + 6) dt\<rparr>) [0..<6] (k\<lparr>transition_matrix := blocks_2x2 a b c d\<rparr>) = k\<lparr>transition_matrix := blocks_2x2 a (\<lambda>i. dt) c d\<rparr>"
  by (simp add: mat_eval)

lemma Zero_m_2x2:
  "Zero_m 12 12 = blocks_2x2 (\<lambda>i. 0) (\<lambda>i. 0) (\<lambda>i. 0) (\<lambda>i. 0)"
  by (simp add: mat_eval)

lemma symmetric_2x2:
  "symmetric_m 12 (blocks_2x2 a b b d)"
  by (simp add: mat_eval symmetric_m_def All_less_Suc)

lemma inverse_diagonal_diag6:
  "inverse_diagonal (diag6 d) = diag6 (\<lambda>i. 1 / d i)"
  by (simp add: mat_eval inverse_diagonal_def)


section \<open>What the reset leaves\<close>

lemma KalmanFilter_init_eq:
  "KalmanFilter_init k =
     \<lparr>measurement_noise_cov = Zero_m 6 6, process_noise_cov = Zero_m 12 12,
      kalman_gain = Zero_m 12 6, measurement_matrix = Zero_m 6 12,
      state_cov = Zero_m 12 12, state_cov_prior = Zero_m 12 12,
      transition_matrix = Zero_m 12 12, state = Zero_v 12, state_prior = Zero_v 12,
      innovation = Zero_v 6\<rparr>"
  by (cases k) (simp add: KalmanFilter_init_def Let_def NUM_STATE_DOF_def NUM_MEASUREMENT_DOF_def)

lemma reset_loops:
  "fold (\<lambda>i k. k\<lparr>transition_matrix := set_elem (transition_matrix k) i (i + 6) dt\<rparr>) [0..<6]
     (fold (reset_noise p r) [0..<3] (fold reset_matrices [0..<6] (KalmanFilter_init k))) =
     \<lparr>measurement_noise_cov = diag6 (\<lambda>i. if i < 3 then p else r),
      process_noise_cov = Zero_m 12 12,
      kalman_gain = Zero_m 12 6,
      measurement_matrix = blocks_1x2 (\<lambda>i. 1) (\<lambda>i. 0),
      state_cov = Zero_m 12 12,
      state_cov_prior = Zero_m 12 12,
      transition_matrix = blocks_2x2 (\<lambda>i. 1) (\<lambda>i. dt) (\<lambda>i. 0) (\<lambda>i. 1),
      state = Zero_v 12,
      state_prior = Zero_v 12,
      innovation = Zero_v 6\<rparr>"
  by (simp add: KalmanFilter_init_eq reset_matrices_def reset_noise_def Let_def mat_eval)

lemma reset_scaler:
  "kf_adaptive_process_noise_cov (FTNoIR_Filter_reset s st) =
     \<lparr>base_cov = process_noise_blocks s 0.03, innovation_cov_estimate = Zero_m 6 6\<rparr>"
  by (cases "kf_adaptive_process_noise_cov st")
     (simp add: FTNoIR_Filter_reset_def Let_def fill_transition_matrix_def
        KalmanProcessNoiseScaler_init_def NUM_STATE_DOF_def NUM_MEASUREMENT_DOF_def
        Zero_m_2x2 fill_process_noise_2x2)

lemma reset_kf: "kf (FTNoIR_Filter_reset s st) = reset_kf s"
  by (simp add: FTNoIR_Filter_reset_def Let_def fill_transition_matrix_def reset_loops
        KalmanProcessNoiseScaler_init_def NUM_STATE_DOF_def NUM_MEASUREMENT_DOF_def
        Zero_m_2x2 fill_process_noise_2x2 reset_kf_def noise_variances_def)

section \<open>Positive semi-definite blocks\<close>

text \<open>
  The 2 by 2 block \<open>(a, b, b, d)\<close> of one axis is positive semi-definite when \<open>a\<close> and \<open>d\<close>
  are not negative and \<open>b\<^sup>2 \<le> a d\<close>.  The time update, the sum of two such blocks and the
  measurement update with a positive measurement noise \<open>r\<close> keep it so.
\<close>

lemma psd_time:
  fixes a b d t :: real
  assumes "0 \<le> a" "0 \<le> d" "b\<^sup>2 \<le> a * d"
  shows "0 \<le> a + 2 * t * b + t\<^sup>2 * d" and "(b + t * d)\<^sup>2 \<le> (a + 2 * t * b + t\<^sup>2 * d) * d"
proof -
  show det: "(b + t * d)\<^sup>2 \<le> (a + 2 * t * b + t\<^sup>2 * d) * d"
    using assms(3) by (simp add: power2_eq_square algebra_simps)
  show "0 \<le> a + 2 * t * b + t\<^sup>2 * d"
  proof (cases "d = 0")
    case True
    with assms(3) have "b = 0" by simp
    with True assms(1) show ?thesis by simp
  next
    case False
    with assms(2) have "0 < d" by simp
    have "0 \<le> (b + t * d)\<^sup>2" by simp
    with det have "0 \<le> (a + 2 * t * b + t\<^sup>2 * d) * d" by linarith
    with \<open>0 < d\<close> show ?thesis by (simp add: zero_le_mult_iff)
  qed
qed

lemma psd_add:
  fixes a1 b1 d1 a2 b2 d2 :: real
  assumes "0 \<le> a1" "0 \<le> d1" "b1\<^sup>2 \<le> a1 * d1" "0 \<le> a2" "0 \<le> d2" "b2\<^sup>2 \<le> a2 * d2"
  shows "(b1 + b2)\<^sup>2 \<le> (a1 + a2) * (d1 + d2)"
proof -
  have "(b1 * b2)\<^sup>2 \<le> (a1 * d1) * (a2 * d2)"
    using assms by (simp add: power_mult_distrib mult_mono)
  also have "\<dots> = (a1 * d2) * (a2 * d1)" by simp
  also have "4 * ((a1 * d2) * (a2 * d1)) \<le> (a1 * d2 + a2 * d1)\<^sup>2"
    using sum_squares_bound [of "a1 * d2" "a2 * d1"] zero_le_power2 [of "a1 * d2 - a2 * d1"]
    by (simp add: power2_eq_square algebra_simps)
  finally have "(2 * (b1 * b2))\<^sup>2 \<le> (a1 * d2 + a2 * d1)\<^sup>2"
    by (simp add: power_mult_distrib)
  moreover have "0 \<le> a1 * d2 + a2 * d1" using assms by simp
  ultimately have "2 * (b1 * b2) \<le> a1 * d2 + a2 * d1"
    by (rule power2_le_imp_le)
  then show ?thesis
    using assms(3,6) by (simp add: power2_eq_square algebra_simps)
qed

lemma psd_meas:
  fixes a b d r :: real
  assumes "0 \<le> a" "0 \<le> d" "b\<^sup>2 \<le> a * d" "0 < r"
  shows "0 \<le> a - a / (a + r) * a" and "0 \<le> d - b / (a + r) * b"
    and "(b - a / (a + r) * b)\<^sup>2 \<le> (a - a / (a + r) * a) * (d - b / (a + r) * b)"
    and "b - a / (a + r) * b = b - b / (a + r) * a"
proof -
  have s: "0 < a + r" using assms by simp
  have e1: "a - a / (a + r) * a = a * r / (a + r)"
    using s by (simp add: field_simps)
  have e2: "d - b / (a + r) * b = (d * (a + r) - b\<^sup>2) / (a + r)"
    using s by (simp add: field_simps power2_eq_square)
  have e3: "b - a / (a + r) * b = b * r / (a + r)"
    using s by (simp add: field_simps)
  have n2: "0 \<le> d * (a + r) - b\<^sup>2"
  proof -
    have "b\<^sup>2 \<le> a * d" by fact
    also have "\<dots> \<le> d * (a + r)" using assms by (simp add: algebra_simps)
    finally show ?thesis by simp
  qed
  show "0 \<le> a - a / (a + r) * a" unfolding e1 using assms s by simp
  show "0 \<le> d - b / (a + r) * b" unfolding e2 using n2 s by simp
  show "b - a / (a + r) * b = b - b / (a + r) * a" by simp
  have "(b * r)\<^sup>2 \<le> (a * r) * (d * (a + r) - b\<^sup>2)"
  proof -
    have "(b * r)\<^sup>2 = b\<^sup>2 * r\<^sup>2" by (simp add: power_mult_distrib)
    also have "\<dots> \<le> (a * d) * r\<^sup>2" using assms(3) by (simp add: mult_right_mono)
    also have "\<dots> \<le> (a * d) * r\<^sup>2 + a * r * (a * d - b\<^sup>2)"
      using assms by simp
    also have "\<dots> = (a * r) * (d * (a + r) - b\<^sup>2)"
      by (simp add: power2_eq_square algebra_simps)
    finally show ?thesis .
  qed
  then have "(b * r)\<^sup>2 / (a + r)\<^sup>2 \<le> (a * r) * (d * (a + r) - b\<^sup>2) / (a + r)\<^sup>2"
    by (rule divide_right_mono) simp
  then show "(b - a / (a + r) * b)\<^sup>2 \<le> (a - a / (a + r) * a) * (d - b / (a + r) * b)"
    unfolding e1 e2 e3 by (simp add: power_divide power2_eq_square)
qed



section \<open>The Kalman step on blocks\<close>

lemma psd_blocks_symmetric: "psd_blocks M \<Longrightarrow> symmetric_m 12 M"
  by (auto simp: psd_blocks_def symmetric_2x2)

lemma psd_blocks_zero: "psd_blocks (Zero_m 12 12)"
  unfolding psd_blocks_def Zero_m_2x2 by (intro exI conjI) (rule refl, simp)

lemma time_update_eq:
  "KalmanFilter_time_update k =
     k\<lparr>state_prior := mat_vec (transition_matrix k) (state k),
       state_cov_prior := mat_add (mat_mul (mat_mul (transition_matrix k) (state_cov k))
                                          (transpose_m (transition_matrix k)))
                                 (process_noise_cov k)\<rparr>"
  by (simp add: KalmanFilter_time_update_def Let_def)

lemma time_update_blocks:
  assumes "transition_matrix k = blocks_2x2 (\<lambda>i. 1) (\<lambda>i. t) (\<lambda>i. 0) (\<lambda>i. 1)"
    and "state_cov k = blocks_2x2 a b b d"
    and "process_noise_cov k = blocks_2x2 q1 q2 q2 q3"
  shows "state_cov_prior (KalmanFilter_time_update k) =
           blocks_2x2 (\<lambda>i. (a i + 2 * t * b i + t\<^sup>2 * d i) + q1 i) (\<lambda>i. (b i + t * d i) + q2 i)
                      (\<lambda>i. (b i + t * d i) + q2 i) (\<lambda>i. d i + q3 i)"
  by (simp add: time_update_eq assms mul_2x2_2x2 transpose_2x2 add_2x2 power2_eq_square algebra_simps)

lemma time_update_psd:
  assumes F: "transition_matrix k = blocks_2x2 (\<lambda>i. 1) (\<lambda>i. t) (\<lambda>i. 0) (\<lambda>i. 1)"
    and P: "psd_blocks (state_cov k)"
    and Q: "psd_blocks (process_noise_cov k)"
  shows "psd_blocks (state_cov_prior (KalmanFilter_time_update k))"
proof -
  from P obtain a b d where P': "state_cov k = blocks_2x2 a b b d"
    and p: "\<And>i. i < 6 \<Longrightarrow> 0 \<le> a i \<and> 0 \<le> d i \<and> (b i)\<^sup>2 \<le> a i * d i"
    unfolding psd_blocks_def by blast
  from Q obtain q1 q2 q3 where Q': "process_noise_cov k = blocks_2x2 q1 q2 q2 q3"
    and q: "\<And>i. i < 6 \<Longrightarrow> 0 \<le> q1 i \<and> 0 \<le> q3 i \<and> (q2 i)\<^sup>2 \<le> q1 i * q3 i"
    unfolding psd_blocks_def by blast
  have "0 \<le> (a i + 2 * t * b i + t\<^sup>2 * d i) + q1 i \<and> 0 \<le> d i + q3 i \<and>
        ((b i + t * d i) + q2 i)\<^sup>2 \<le> ((a i + 2 * t * b i + t\<^sup>2 * d i) + q1 i) * (d i + q3 i)"
    if "i < 6" for i
  proof -
    from p [OF that] have a: "0 \<le> a i" and d: "0 \<le> d i" and b: "(b i)\<^sup>2 \<le> a i * d i" by simp_all
    from q [OF that] have q1: "0 \<le> q1 i" and q3: "0 \<le> q3 i" and q2: "(q2 i)\<^sup>2 \<le> q1 i * q3 i" by simp_all
    note t = psd_time [OF a d b, of t]
    show ?thesis
      using t(1) q1 d q3 psd_add [OF t(1) d t(2) q1 q3 q2] by simp
  qed
  then show ?thesis
    unfolding psd_blocks_def time_update_blocks [OF F P' Q'] by blast
qed

lemma measurement_update_eq:
  "KalmanFilter_measurement_update inverse_m k z =
    (let H = measurement_matrix k;
         P = state_cov_prior k;
         K = mat_mul (mat_mul P (transpose_m H))
               (inverse_m (mat_add (mat_mul (mat_mul H P) (transpose_m H)) (measurement_noise_cov k)));
         y = vec_sub z (mat_vec H (state_prior k))
     in k\<lparr>kalman_gain := K, innovation := y,
          state := vec_add (state_prior k) (mat_vec K y),
          state_cov := mat_sub P (mat_mul (mat_mul K H) P)\<rparr>)"
  by (simp add: KalmanFilter_measurement_update_def Let_def)

lemma measurement_update_gain:
  assumes inv: "inverts_positive_diagonals inverse_m"
    and H: "measurement_matrix k = blocks_1x2 (\<lambda>i. 1) (\<lambda>i. 0)"
    and R: "measurement_noise_cov k = diag6 r"
    and P: "state_cov_prior k = blocks_2x2 a b b d"
    and pos: "\<And>i. i < 6 \<Longrightarrow> 0 < a i + r i"
  shows "kalman_gain (KalmanFilter_measurement_update inverse_m k z) =
           blocks_2x1 (\<lambda>i. a i / (a i + r i)) (\<lambda>i. b i / (a i + r i))"
proof -
  have S: "mat_add (mat_mul (mat_mul (measurement_matrix k) (state_cov_prior k))
                  (transpose_m (measurement_matrix k))) (measurement_noise_cov k) =
             diag6 (\<lambda>i. a i + r i)"
    by (simp add: H R P mul_1x2_2x2 transpose_1x2 mul_1x2_2x1 add_diag6)
  have I: "inverse_m (diag6 (\<lambda>i. a i + r i)) = diag6 (\<lambda>i. 1 / (a i + r i))"
    using inv [unfolded inverts_positive_diagonals_def, rule_format, of "\<lambda>i. a i + r i"] pos
    by simp
  show ?thesis
    by (simp add: measurement_update_eq Let_def S I)
       (simp add: H P transpose_1x2 mul_2x2_2x1 mul_2x1_diag6)
qed

lemma measurement_update_blocks:
  assumes inv: "inverts_positive_diagonals inverse_m"
    and H: "measurement_matrix k = blocks_1x2 (\<lambda>i. 1) (\<lambda>i. 0)"
    and R: "measurement_noise_cov k = diag6 r"
    and P: "state_cov_prior k = blocks_2x2 a b b d"
    and pos: "\<And>i. i < 6 \<Longrightarrow> 0 < a i + r i"
  shows "state_cov (KalmanFilter_measurement_update inverse_m k z) =
           blocks_2x2 (\<lambda>i. a i - a i / (a i + r i) * a i) (\<lambda>i. b i - a i / (a i + r i) * b i)
                      (\<lambda>i. b i - a i / (a i + r i) * b i) (\<lambda>i. d i - b i / (a i + r i) * b i)"
proof -
  have K: "kalman_gain (KalmanFilter_measurement_update inverse_m k z) =
           blocks_2x1 (\<lambda>i. a i / (a i + r i)) (\<lambda>i. b i / (a i + r i))"
    by (rule measurement_update_gain [OF assms])
  have "state_cov (KalmanFilter_measurement_update inverse_m k z) =
          mat_sub (state_cov_prior k)
            (mat_mul (mat_mul (kalman_gain (KalmanFilter_measurement_update inverse_m k z))
                              (measurement_matrix k)) (state_cov_prior k))"
    by (simp add: measurement_update_eq Let_def)
  then show ?thesis
    by (simp add: K H P mul_2x1_1x2 mul_2x2_2x2 sub_2x2 mult.commute)
qed

lemma measurement_update_frame:
  "measurement_matrix (KalmanFilter_measurement_update inverse_m k z) = measurement_matrix k"
  "transition_matrix (KalmanFilter_measurement_update inverse_m k z) = transition_matrix k"
  "measurement_noise_cov (KalmanFilter_measurement_update inverse_m k z) = measurement_noise_cov k"
  "state_cov_prior (KalmanFilter_measurement_update inverse_m k z) = state_cov_prior k"
  "process_noise_cov (KalmanFilter_measurement_update inverse_m k z) = process_noise_cov k"
  by (simp_all add: measurement_update_eq Let_def)

lemma time_update_frame:
  "measurement_matrix (KalmanFilter_time_update k) = measurement_matrix k"
  "transition_matrix (KalmanFilter_time_update k) = transition_matrix k"
  "measurement_noise_cov (KalmanFilter_time_update k) = measurement_noise_cov k"
  "state_cov (KalmanFilter_time_update k) = state_cov k"
  "process_noise_cov (KalmanFilter_time_update k) = process_noise_cov k"
  by (simp_all add: time_update_eq)

lemma measurement_update_psd:
  assumes inv: "inverts_positive_diagonals inverse_m"
    and H: "measurement_matrix k = blocks_1x2 (\<lambda>i. 1) (\<lambda>i. 0)"
    and R: "measurement_noise_cov k = diag6 r"
    and r: "\<And>i. i < 6 \<Longrightarrow> 0 < r i"
    and P: "psd_blocks (state_cov_prior k)"
  shows "psd_blocks (state_cov (KalmanFilter_measurement_update inverse_m k z))"
proof -
  from P obtain a b d where P': "state_cov_prior k = blocks_2x2 a b b d"
    and p: "\<And>i. i < 6 \<Longrightarrow> 0 \<le> a i \<and> 0 \<le> d i \<and> (b i)\<^sup>2 \<le> a i * d i"
    unfolding psd_blocks_def by blast
  have pos: "0 < a i + r i" if "i < 6" for i
    using p [OF that] r [OF that] by simp
  have "0 \<le> a i - a i / (a i + r i) * a i \<and> 0 \<le> d i - b i / (a i + r i) * b i \<and>
        (b i - a i / (a i + r i) * b i)\<^sup>2 \<le>
          (a i - a i / (a i + r i) * a i) * (d i - b i / (a i + r i) * b i)"
    if "i < 6" for i
  proof -
    from p [OF that] have a: "0 \<le> a i" and d: "0 \<le> d i" and b: "(b i)\<^sup>2 \<le> a i * d i" by simp_all
    show ?thesis
      using psd_meas(1-3) [OF a d b r [OF that]] by blast
  qed
  then have "\<forall>i<6. 0 \<le> a i - a i / (a i + r i) * a i \<and> 0 \<le> d i - b i / (a i + r i) * b i \<and>
        (b i - a i / (a i + r i) * b i)\<^sup>2 \<le>
          (a i - a i / (a i + r i) * a i) * (d i - b i / (a i + r i) * b i)"
    by blast
  with measurement_update_blocks [OF inv H R P' pos, of z] show ?thesis
    unfolding psd_blocks_def by (intro exI conjI)
qed

lemma process_noise_psd:
  assumes "0 \<le> t" and "0 \<le> x"
  shows "psd_blocks (smult x (process_noise_blocks s t))"
proof -
  have q: "0 \<le> noise_diagonal s t i" for i
    using assms(1) by (simp add: noise_diagonal_def)
  have "0 \<le> x * noise_diagonal s t i \<and> 0 \<le> x * (noise_diagonal s t i * 20) \<and>
        (x * (noise_diagonal s t i * 1))\<^sup>2 \<le> x * noise_diagonal s t i * (x * (noise_diagonal s t i * 20))"
    for i
  proof -
    have "0 \<le> (x * noise_diagonal s t i)\<^sup>2" by simp
    then show ?thesis
      using q [of i] assms(2) by (simp add: power2_eq_square algebra_simps)
  qed
  then show ?thesis
    unfolding psd_blocks_def process_noise_blocks_def smult_2x2 by blast
qed

lemma process_noise_blocks_psd:
  assumes "0 \<le> t"
  shows "psd_blocks (process_noise_blocks s t)"
proof -
  have "smult 1 (process_noise_blocks s t) = process_noise_blocks s t"
    by (simp add: process_noise_blocks_def smult_2x2)
  then show ?thesis
    using process_noise_psd [OF assms, of 1 s] by simp
qed

lemma update_alpha_pos: "0 \<le> update_alpha T1 T2"
  using clamp_range [of "0.001" 1000 "sqrt (T1 / T2)"] by (simp add: update_alpha_clamp)

lemma scaler_update_fields:
  "process_noise_cov (snd (KalmanProcessNoiseScaler_update s sc k dt)) =
     smult (update_alpha (update_T1 (sc\<lparr>innovation_cov_estimate := update_estimate s sc k dt\<rparr>) k)
                         (update_T2 k)) (base_cov sc)"
  "measurement_matrix (snd (KalmanProcessNoiseScaler_update s sc k dt)) = measurement_matrix k"
  "transition_matrix (snd (KalmanProcessNoiseScaler_update s sc k dt)) = transition_matrix k"
  "measurement_noise_cov (snd (KalmanProcessNoiseScaler_update s sc k dt)) = measurement_noise_cov k"
  "state_cov (snd (KalmanProcessNoiseScaler_update s sc k dt)) = state_cov k"
  "state_cov_prior (snd (KalmanProcessNoiseScaler_update s sc k dt)) = state_cov_prior k"
  "base_cov (fst (KalmanProcessNoiseScaler_update s sc k dt)) = base_cov sc"
  by (simp_all add: KalmanProcessNoiseScaler_update_def Let_def)

lemma fill_transition_blocks:
  assumes "transition_matrix k = blocks_2x2 a b c d"
  shows "fold (\<lambda>i k. k\<lparr>transition_matrix := set_elem (transition_matrix k) i (i + 6) dt\<rparr>) [0..<6] k =
           k\<lparr>transition_matrix := blocks_2x2 a (\<lambda>i. dt) c d\<rparr>"
proof -
  have "k = k\<lparr>transition_matrix := blocks_2x2 a b c d\<rparr>"
    using assms by (cases k) simp
  then show ?thesis
    using fill_transition_2x2 [where k = k and dt = dt and a = a and b = b and c = c and d = d]
    by simp
qed


section \<open>The invariant of the filter object\<close>

lemma kalman_step_inv:
  assumes inv: "inverts_positive_diagonals inverse_m"
    and k: "kf_inv k"
    and base: "base_cov sc = blocks_2x2 a b c d"
    and t: "0 \<le> t"
  shows "kf_inv
     (KalmanFilter_measurement_update inverse_m
        (KalmanFilter_time_update
           (snd (KalmanProcessNoiseScaler_update s
                   (sc\<lparr>base_cov := fill_process_noise_cov_matrix s (base_cov sc) t\<rparr>)
                   (fold (\<lambda>i k. k\<lparr>transition_matrix := set_elem (transition_matrix k) i (i + 6) t\<rparr>)
                      [0..<6] k)
                   t)))
        z)"
proof -
  from k have H: "measurement_matrix k = blocks_1x2 (\<lambda>i. 1) (\<lambda>i. 0)"
    and P: "psd_blocks (state_cov k)"
    by (simp_all add: kf_inv_def)
  from k obtain t0 where F0: "transition_matrix k = blocks_2x2 (\<lambda>i. 1) (\<lambda>i. t0) (\<lambda>i. 0) (\<lambda>i. 1)"
    unfolding kf_inv_def by blast
  from k obtain r where R: "measurement_noise_cov k = diag6 r" and r: "\<And>i. i < 6 \<Longrightarrow> 0 < r i"
    unfolding kf_inv_def by blast
  define k1 where "k1 = fold (\<lambda>i k. k\<lparr>transition_matrix := set_elem (transition_matrix k) i (i + 6) t\<rparr>)
                      [0..<6] k"
  define sc2 where "sc2 = sc\<lparr>base_cov := fill_process_noise_cov_matrix s (base_cov sc) t\<rparr>"
  define k2 where "k2 = snd (KalmanProcessNoiseScaler_update s sc2 k1 t)"
  define k3 where "k3 = KalmanFilter_time_update k2"
  define k4 where "k4 = KalmanFilter_measurement_update inverse_m k3 z"
  have k1: "k1 = k\<lparr>transition_matrix := blocks_2x2 (\<lambda>i. 1) (\<lambda>i. t) (\<lambda>i. 0) (\<lambda>i. 1)\<rparr>"
    unfolding k1_def by (rule fill_transition_blocks [OF F0])
  have b2: "base_cov sc2 = process_noise_blocks s t"
    by (simp add: sc2_def base fill_process_noise_2x2)
  have Q2: "psd_blocks (process_noise_cov k2)"
    unfolding k2_def scaler_update_fields b2 by (rule process_noise_psd [OF t update_alpha_pos])
  have F2: "transition_matrix k2 = blocks_2x2 (\<lambda>i. 1) (\<lambda>i. t) (\<lambda>i. 0) (\<lambda>i. 1)"
    and H2: "measurement_matrix k2 = blocks_1x2 (\<lambda>i. 1) (\<lambda>i. 0)"
    and R2: "measurement_noise_cov k2 = diag6 r"
    and P2: "psd_blocks (state_cov k2)"
    using H R P by (simp_all add: k2_def scaler_update_fields k1)
  have Pp3: "psd_blocks (state_cov_prior k3)"
    unfolding k3_def by (rule time_update_psd [OF F2 P2 Q2])
  have F3: "transition_matrix k3 = blocks_2x2 (\<lambda>i. 1) (\<lambda>i. t) (\<lambda>i. 0) (\<lambda>i. 1)"
    and H3: "measurement_matrix k3 = blocks_1x2 (\<lambda>i. 1) (\<lambda>i. 0)"
    and R3: "measurement_noise_cov k3 = diag6 r"
    using F2 H2 R2 by (simp_all add: k3_def time_update_frame)
  have P4: "psd_blocks (state_cov k4)"
    unfolding k4_def by (rule measurement_update_psd [OF inv H3 R3 r Pp3])
  have "kf_inv k4"
    unfolding kf_inv_def using P4 Pp3 F3 H3 R3 r
    by (auto simp: k4_def measurement_update_frame)
  then show ?thesis
    by (simp add: k4_def k3_def k2_def sc2_def k1_def)
qed

lemma reset_kf_inv:
  assumes "positive_noise s"
  shows "kf_inv (reset_kf s)"
proof -
  have "psd_blocks (process_noise_blocks s 0.03)"
    by (rule process_noise_blocks_psd) simp
  moreover have "\<forall>i<6. 0 < noise_variances s i"
    using assms by (simp add: positive_noise_def noise_variances_def)
  ultimately show ?thesis
    unfolding kf_inv_def by (auto simp: reset_kf_def psd_blocks_zero)
qed

lemma reset_inv:
  assumes "positive_noise s"
  shows "filter_inv now (FTNoIR_Filter_reset s st)"
  unfolding filter_inv_def
  using reset_kf_inv [OF assms]
  by (auto simp: reset_kf reset_scaler reset_first_run reset_dt_since_last_input
      process_noise_blocks_def)

lemma do_kalman_filter_fields:
  "dt_since_last_input (fst (do_kalman_filter inverse_m s st z dt new_input)) = dt_since_last_input st"
  "timer (fst (do_kalman_filter inverse_m s st z dt new_input)) = timer st"
  "first_run (fst (do_kalman_filter inverse_m s st z dt new_input)) = first_run st"
  by (simp_all add: do_kalman_filter_def Let_def fill_transition_matrix_def)

lemma do_kalman_filter_kf:
  "kf (fst (do_kalman_filter inverse_m s st z dt new_input)) =
    (if new_input
     then KalmanFilter_measurement_update inverse_m
        (KalmanFilter_time_update
           (snd (KalmanProcessNoiseScaler_update s
                   ((kf_adaptive_process_noise_cov st)\<lparr>base_cov :=
                       fill_process_noise_cov_matrix s (base_cov (kf_adaptive_process_noise_cov st))
                         (dt_since_last_input st)\<rparr>)
                   (fold (\<lambda>i k. k\<lparr>transition_matrix :=
                                  set_elem (transition_matrix k) i (i + 6) (dt_since_last_input st)\<rparr>)
                      [0..<6] (kf st))
                   (dt_since_last_input st))))
        z
     else kf st)"
  by (simp add: do_kalman_filter_def Let_def fill_transition_matrix_def)

lemma do_kalman_filter_base_cov:
  "base_cov (kf_adaptive_process_noise_cov (fst (do_kalman_filter inverse_m s st z dt new_input))) =
    (if new_input
     then fill_process_noise_cov_matrix s (base_cov (kf_adaptive_process_noise_cov st))
            (dt_since_last_input st)
     else base_cov (kf_adaptive_process_noise_cov st))"
  by (simp add: do_kalman_filter_def Let_def fill_transition_matrix_def scaler_update_fields)

lemma do_kalman_filter_inv:
  assumes inv: "inverts_positive_diagonals inverse_m"
    and st: "filter_inv now st"
  shows "kf_inv (kf (fst (do_kalman_filter inverse_m s st z dt new_input)))"
    and "\<exists>a b c d. base_cov (kf_adaptive_process_noise_cov
            (fst (do_kalman_filter inverse_m s st z dt new_input))) = blocks_2x2 a b c d"
proof -
  from st have k: "kf_inv (kf st)" and t: "0 \<le> dt_since_last_input st"
    by (simp_all add: filter_inv_def)
  from st obtain a b c d where
    base: "base_cov (kf_adaptive_process_noise_cov st) = blocks_2x2 a b c d"
    unfolding filter_inv_def by blast
  show "kf_inv (kf (fst (do_kalman_filter inverse_m s st z dt new_input)))"
    unfolding do_kalman_filter_kf using kalman_step_inv [OF inv k base t] k by simp
  show "\<exists>a b c d. base_cov (kf_adaptive_process_noise_cov
            (fst (do_kalman_filter inverse_m s st z dt new_input))) = blocks_2x2 a b c d"
    unfolding do_kalman_filter_base_cov
    using base by (auto simp: fill_process_noise_2x2 process_noise_blocks_def)
qed

lemma update_deadzone_size_frame:
  "dt_since_last_input (update_deadzone_size s st) = dt_since_last_input st"
  "timer (update_deadzone_size s st) = timer st"
  "first_run (update_deadzone_size s st) = first_run st"
  by (simp_all add: update_deadzone_size_def Let_def)

lemma filter_running_frame:
  assumes "\<not> first_run st" and "\<not> sliders_changed s st"
  shows "kf_adaptive_process_noise_cov (fst (FTNoIR_Filter_filter inverse_m s t1 t2 st input_buf output_buf)) =
           kf_adaptive_process_noise_cov (running_tick_kalman inverse_m s t1 t2 st input_buf)"
    and "dt_since_last_input (fst (FTNoIR_Filter_filter inverse_m s t1 t2 st input_buf output_buf)) =
           (if new_measurement st input_buf then 0
            else dt_since_last_input st + Timer_elapsed_seconds t1 (timer st))"
    and "timer (fst (FTNoIR_Filter_filter inverse_m s t1 t2 st input_buf output_buf)) =
           \<lparr>started_at = t2\<rparr>"
    and "first_run (fst (FTNoIR_Filter_filter inverse_m s t1 t2 st input_buf output_buf)) = False"
  using assms
  by (simp_all add: FTNoIR_Filter_filter_def check_sliders_def Let_def running_tick_kalman_def
      update_deadzone_size_fields update_deadzone_size_frame do_kalman_filter_fields
      Timer_start_const)

lemma filter_step_inv:
  assumes inv: "inverts_positive_diagonals inverse_m"
    and s: "positive_noise s"
    and st: "filter_inv now st"
    and t1: "now \<le> t1" and t2: "t1 \<le> t2"
  shows "filter_inv t2 (fst (FTNoIR_Filter_filter inverse_m s t1 t2 st input_buf output_buf))"
proof (cases "first_run (check_sliders s st)")
  case True
  have "filter_inv now (check_sliders s st)"
    using st reset_inv [OF s] by (simp add: check_sliders_def)
  then show ?thesis
    using t2 by (simp add: filter_first_run [OF True] filter_inv_def)
next
  case False
  then have run: "\<not> first_run st" "\<not> sliders_changed s st"
    by (auto simp: check_sliders_def reset_first_run split: if_splits)
  define dt where "dt = Timer_elapsed_seconds t1 (timer st)"
  define st_a where "st_a = st\<lparr>dt_since_last_input := dt_since_last_input st + dt,
                               timer := Timer_start t2 (timer st)\<rparr>"
  have dt: "0 \<le> dt"
    using st run(1) t1 by (simp add: dt_def filter_inv_def Timer_elapsed_seconds_def)
  have a: "filter_inv t2 st_a"
    using st dt run(1) by (simp add: st_a_def filter_inv_def Timer_start_def)
  have rt: "running_tick_kalman inverse_m s t1 t2 st input_buf =
              fst (do_kalman_filter inverse_m s st_a (map_pose input_buf) dt
                     (new_measurement st input_buf))"
    by (simp add: running_tick_kalman_def st_a_def dt_def)
  have "0 \<le> dt_since_last_input st + dt"
    using st dt by (simp add: filter_inv_def)
  then show ?thesis
    unfolding filter_inv_def filter_running_fields(1) [OF run] filter_running_frame [OF run] rt
    using do_kalman_filter_inv [OF inv a] t2 by (simp add: dt_def)
qed

lemma filter_calls_inv:
  assumes inv: "inverts_positive_diagonals inverse_m"
    and "filter_inv now st"
    and "sorted (now # clock_readings cs)"
    and "\<forall>c \<in> set cs. positive_noise (call_settings c)"
  shows "\<exists>now'. filter_inv now' (filter_calls inverse_m st cs)"
  using assms(2-)
proof (induction cs arbitrary: now st)
  case Nil
  then show ?case by (auto simp: filter_calls_def)
next
  case (Cons c cs)
  from Cons.prems(2) have t: "now \<le> call_t1 c" "call_t1 c \<le> call_t2 c"
    and rest: "sorted (call_t2 c # clock_readings cs)"
    by (simp_all add: clock_readings_def)
  from Cons.prems(3) have s: "positive_noise (call_settings c)"
    and ss: "\<forall>c \<in> set cs. positive_noise (call_settings c)"
    by simp_all
  let ?st = "fst (FTNoIR_Filter_filter inverse_m (call_settings c) (call_t1 c) (call_t2 c) st
                    (call_input c) (call_output c))"
  have "filter_inv (call_t2 c) ?st"
    by (rule filter_step_inv [OF inv s Cons.prems(1) t])
  from Cons.IH [OF this rest ss] show ?case
    by (simp add: filter_calls_def)
qed

text \<open>
  C3.  For every finite sequence of calls of \<^verbatim>\<open>FTNoIR_Filter::filter\<close> on a freshly
  constructed filter (the constructor runs \<^verbatim>\<open>reset()\<close>), \<open>state_cov\<close> is a symmetric 12 by
  12 matrix after the calls, and so is \<open>state_cov_prior\<close>.  \<^verbatim>\<open>time_update\<close> leaves
  \<open>state_cov\<close> as it is, and a call does nothing to the Kalman filter after its
  \<^verbatim>\<open>measurement_update\<close>, so these are the values of \<open>state_cov\<close> after every
  \<^verbatim>\<open>time_update\<close> and every \<^verbatim>\<open>measurement_update\<close>.  Arithmetic is exact.  What is not in \<^verbatim>\<open>kalman.cpp\<close> is
  assumed to be as it is meant: Eigen's \<^verbatim>\<open>inverse()\<close> inverts a diagonal matrix with a
  positive diagonal, \<^verbatim>\<open>map_slider_value\<close> is positive at the slider values of every call,
  and the clock does not run backwards.
\<close>

theorem state_cov_stays_symmetric:
  assumes "inverts_positive_diagonals inverse_m"
    and "positive_noise s0"
    and "\<forall>c \<in> set cs. positive_noise (call_settings c)"
    and "sorted (clock_readings cs)"
  shows "symmetric_m 12 (state_cov (kf (filter_calls inverse_m (FTNoIR_Filter_new s0 raw) cs))) \<and>
         symmetric_m 12 (state_cov_prior (kf (filter_calls inverse_m (FTNoIR_Filter_new s0 raw) cs))) \<and>
         state_cov (KalmanFilter_time_update k) = state_cov k"
proof -
  define now where "now = (if cs = [] then 0 else call_t1 (hd cs))"
  have "sorted (now # clock_readings cs)"
    using assms(4) by (cases cs) (simp_all add: now_def clock_readings_def)
  moreover have "filter_inv now (FTNoIR_Filter_new s0 raw)"
    unfolding FTNoIR_Filter_new_def by (rule reset_inv [OF assms(2)])
  ultimately obtain now' where
    "filter_inv now' (filter_calls inverse_m (FTNoIR_Filter_new s0 raw) cs)"
    using filter_calls_inv [OF assms(1) _ _ assms(3)] by blast
  then show ?thesis
    by (simp add: filter_inv_def kf_inv_def psd_blocks_symmetric time_update_frame)
qed


section \<open>The output of a tick\<close>

lemma do_kalman_filter_pose:
  "snd (do_kalman_filter inverse_m s st z dt new_input) =
     head 6 (state (kf (fst (do_kalman_filter inverse_m s st z dt new_input))))"
  by (simp add: do_kalman_filter_def Let_def)

lemma map_assign_pose: "6 \<le> length v \<Longrightarrow> map_pose (assign_pose v buf) = take 6 v"
  by (simp add: map_pose_def assign_pose_def)

lemma filter_running_output:
  assumes "\<not> first_run st" and "\<not> sliders_changed s st"
    and "length (last_output (dz_filter st)) = 6"
    and "12 = length (state (kf (running_tick_kalman inverse_m s t1 t2 st input_buf)))"
  shows "map_pose (snd (FTNoIR_Filter_filter inverse_m s t1 t2 st input_buf output_buf)) =
           map (\<lambda>j. deadzone_axis s
                     (dz_size (dz_filter (fst (FTNoIR_Filter_filter inverse_m s t1 t2 st input_buf output_buf))) ! j)
                     (last_output (dz_filter st) ! j)
                     (head 6 (state (kf (running_tick_kalman inverse_m s t1 t2 st input_buf))) ! j))
               [0..<6]"
    and "last_output (dz_filter (fst (FTNoIR_Filter_filter inverse_m s t1 t2 st input_buf output_buf))) =
           map_pose (snd (FTNoIR_Filter_filter inverse_m s t1 t2 st input_buf output_buf))"
proof -
  define st_a where "st_a = st\<lparr>dt_since_last_input := dt_since_last_input st + Timer_elapsed_seconds t1 (timer st),
                               timer := Timer_start t2 (timer st)\<rparr>"
  define r where "r = do_kalman_filter inverse_m s st_a (map_pose input_buf)
                        (Timer_elapsed_seconds t1 (timer st)) (new_measurement st input_buf)"
  define pose where "pose = head 6 (state (kf (fst r)))"
  define st_b where "st_b = update_deadzone_size s (fst r)"
  have rt: "running_tick_kalman inverse_m s t1 t2 st input_buf = fst r"
    by (simp add: running_tick_kalman_def r_def st_a_def)
  have len: "length pose = 6"
    using assms(4) by (simp add: pose_def rt head_def)
  have lo: "last_output (dz_filter st_b) = last_output (dz_filter st)"
    by (simp add: st_b_def update_deadzone_size_fields r_def do_kalman_filter_def Let_def
        fill_transition_matrix_def st_a_def)
  have mp: "map_pose (assign_pose pose output_buf) = pose"
    using len by (simp add: map_assign_pose)
  have dzf: "DeadzoneFilter_filter s (dz_filter st_b) pose =
      ((dz_filter st_b)\<lparr>last_output := map (\<lambda>j. deadzone_axis s (dz_size (dz_filter st_b) ! j)
                                            (last_output (dz_filter st) ! j) (pose ! j)) [0..<6]\<rparr>,
       map (\<lambda>j. deadzone_axis s (dz_size (dz_filter st_b) ! j)
                                            (last_output (dz_filter st) ! j) (pose ! j)) [0..<6])"
    using DeadzoneFilter_filter_closed [of "dz_filter st_b" pose s] len assms(3) by (simp add: lo)
  have res: "FTNoIR_Filter_filter inverse_m s t1 t2 st input_buf output_buf =
      ((if new_measurement st input_buf
        then (st_b\<lparr>dz_filter := fst (DeadzoneFilter_filter s (dz_filter st_b) pose)\<rparr>)
               \<lparr>dt_since_last_input := 0, last_input := map_pose input_buf\<rparr>
        else st_b\<lparr>dz_filter := fst (DeadzoneFilter_filter s (dz_filter st_b) pose)\<rparr>),
       assign_pose (snd (DeadzoneFilter_filter s (dz_filter st_b) pose))
         (assign_pose pose output_buf))"
  proof (cases "new_measurement st input_buf")
    case True
    show ?thesis
      unfolding st_b_def pose_def r_def st_a_def
      using assms(1,2) mp [unfolded pose_def r_def st_a_def] True
      by (simp add: FTNoIR_Filter_filter_def check_sliders_def Let_def do_kalman_filter_pose)
  next
    case False
    show ?thesis
      unfolding st_b_def pose_def r_def st_a_def
      using assms(1,2) mp [unfolded pose_def r_def st_a_def] False
      by (simp add: FTNoIR_Filter_filter_def check_sliders_def Let_def do_kalman_filter_pose)
  qed
  have dz: "dz_size (dz_filter (fst (FTNoIR_Filter_filter inverse_m s t1 t2 st input_buf output_buf))) =
              dz_size (dz_filter st_b)"
    by (simp add: res dzf)
  show "map_pose (snd (FTNoIR_Filter_filter inverse_m s t1 t2 st input_buf output_buf)) =
           map (\<lambda>j. deadzone_axis s
                     (dz_size (dz_filter (fst (FTNoIR_Filter_filter inverse_m s t1 t2 st input_buf output_buf))) ! j)
                     (last_output (dz_filter st) ! j)
                     (head 6 (state (kf (running_tick_kalman inverse_m s t1 t2 st input_buf))) ! j))
               [0..<6]"
    unfolding dz rt pose_def [symmetric] by (simp add: res dzf map_assign_pose)
  show "last_output (dz_filter (fst (FTNoIR_Filter_filter inverse_m s t1 t2 st input_buf output_buf))) =
           map_pose (snd (FTNoIR_Filter_filter inverse_m s t1 t2 st input_buf output_buf))"
    by (simp add: res dzf map_assign_pose)
qed

lemma pow_d_pos: "0 < x \<Longrightarrow> 0 < pow_d x y"
  by (simp add: pow_d_def)

lemma deadzone_axis_strict:
  assumes "0 < dz" and "x \<noteq> prev"
  shows "deadzone_axis s dz prev x \<noteq> prev" and "deadzone_axis s dz prev x \<noteq> x"
proof -
  define f where "f = pow_d (\<bar>x - prev\<bar> / dz) (deadzone_exponent s)"
  define g where "g = f / (f + 1)"
  have "0 < \<bar>x - prev\<bar> / dz" using assms by simp
  then have f: "0 < f" unfolding f_def by (rule pow_d_pos)
  then have g: "0 < g" "g < 1" by (simp_all add: g_def)
  have eq: "deadzone_axis s dz prev x = prev + g * (x - prev)"
    using assms(1) by (simp add: deadzone_axis_def Let_def f_def g_def)
  show "deadzone_axis s dz prev x \<noteq> prev"
    unfolding eq using g assms(2) by simp
  have "prev + g * (x - prev) - x = (g - 1) * (x - prev)"
    by (simp add: algebra_simps)
  moreover have "(g - 1) * (x - prev) \<noteq> 0"
    using g assms(2) by simp
  ultimately show "deadzone_axis s dz prev x \<noteq> x"
    unfolding eq by (metis diff_self)
qed

lemma deadzone_axis_rest: "deadzone_axis s dz x x = x"
  by (simp add: deadzone_axis_def)

lemma running_tick_not_new:
  assumes "\<not> new_measurement st input_buf"
  shows "running_tick_kalman inverse_m s t1 t2 st input_buf =
           st\<lparr>dt_since_last_input := dt_since_last_input st + Timer_elapsed_seconds t1 (timer st),
              timer := Timer_start t2 (timer st)\<rparr>"
  using assms by (simp add: running_tick_kalman_def do_kalman_filter_def Let_def)

lemma repeated_input_tick:
  assumes "\<not> first_run st" and "\<not> sliders_changed s st"
    and "map_pose input_buf = last_input st"
    and "length (last_output (dz_filter st)) = 6" and "length (state (kf st)) = 12"
  shows "(let r = FTNoIR_Filter_filter inverse_m s t1 t2 st input_buf output_buf
          in \<not> new_measurement st input_buf \<and>
             kf (fst r) = kf st \<and>
             kf_adaptive_process_noise_cov (fst r) = kf_adaptive_process_noise_cov st \<and>
             last_input (fst r) = last_input st \<and>
             do_kalman_filter inverse_m s st' z dt (new_measurement st input_buf) =
               (st', head 6 (state (kf st'))) \<and>
             map_pose (snd r) =
               map (\<lambda>j. deadzone_axis s (dz_size (dz_filter (fst r)) ! j)
                         (last_output (dz_filter st) ! j) (head 6 (state (kf st)) ! j))
                   [0..<6])"
proof -
  have nm: "\<not> new_measurement st input_buf"
    using assms(3) by (simp add: new_measurement_def cwiseNotEqual_any_iff)
  note rt = running_tick_not_new [OF nm, of inverse_m s t1 t2]
  have len: "12 = length (state (kf (running_tick_kalman inverse_m s t1 t2 st input_buf)))"
    using assms(5) by (simp add: rt)
  have out: "map_pose (snd (FTNoIR_Filter_filter inverse_m s t1 t2 st input_buf output_buf)) =
      map (\<lambda>j. deadzone_axis s
                (dz_size (dz_filter (fst (FTNoIR_Filter_filter inverse_m s t1 t2 st input_buf output_buf))) ! j)
                (last_output (dz_filter st) ! j) (head 6 (state (kf st)) ! j))
          [0..<6]"
    using filter_running_output(1) [OF assms(1,2,4) len, of output_buf] by (simp add: rt)
  have dk: "do_kalman_filter inverse_m s st' z dt (new_measurement st input_buf) =
              (st', head 6 (state (kf st')))"
    using nm by (simp add: do_kalman_filter_def Let_def)
  show ?thesis
    unfolding Let_def
    using nm out dk filter_running_fields(1,4) [OF assms(1,2), of inverse_m t1 t2 input_buf output_buf]
      filter_running_frame(1) [OF assms(1,2), of inverse_m t1 t2 input_buf output_buf]
    by (simp add: rt)
qed

text \<open>
  C5, amended.  On a tick that is not the first and whose input equals the stored last input
  component-wise, no new measurement is registered and the Kalman step is skipped: the Kalman
  filter (its state, \<open>state_cov\<close> and every matrix) and the scaler are as before, the stored
  last input is as before, and \<^verbatim>\<open>do_kalman_filter\<close> returns the object it was given and
  the pose part of its state, the previous filtered pose.  \<^verbatim>\<open>FTNoIR_Filter::filter\<close> then
  passes that pose through the deadzone filter: on each axis the output is the deadzone
  response for the deadzone size of this tick, the previous output and that pose.
\<close>

theorem repeated_input_skips_kalman_step:
  assumes "\<not> first_run st" and "\<not> sliders_changed s st"
    and "map_pose input_buf = last_input st"
    and "length (last_output (dz_filter st)) = 6" and "length (state (kf st)) = 12"
  shows "(let r = FTNoIR_Filter_filter inverse_m s t1 t2 st input_buf output_buf
          in \<not> new_measurement st input_buf \<and>
             kf (fst r) = kf st \<and>
             kf_adaptive_process_noise_cov (fst r) = kf_adaptive_process_noise_cov st \<and>
             last_input (fst r) = last_input st \<and>
             do_kalman_filter inverse_m s st' z dt (new_measurement st input_buf) =
               (st', head 6 (state (kf st'))) \<and>
             map_pose (snd r) =
               map (\<lambda>j. deadzone_axis s (dz_size (dz_filter (fst r)) ! j)
                         (last_output (dz_filter st) ! j) (head 6 (state (kf st)) ! j))
                   [0..<6])"
  using assms by (rule repeated_input_tick)

section \<open>An example run\<close>

text \<open>
  Four calls on a fresh filter with the example settings: the warm-up call at time 0, a call
  at time 1 with the zero pose (no new measurement), a call at time 2 with the pose
  \<open>[1, 0, 0, 0, 0, 0]\<close> (a new measurement, two seconds after the last one could have
  come), and a call at time 3 with the same pose.  \<open>example_idle\<close> and \<open>example_moved\<close> are
  the filter after the second and after the third call.
\<close>

lemma vec_sub_tab6: "vec_sub (tab6 u) (tab6 w) = tab6 (\<lambda>i. u i - w i)"
  by (simp add: mat_eval)

lemma vec_add_stack: "vec_add (stack a b) (stack c d) = stack (\<lambda>i. a i + c i) (\<lambda>i. b i + d i)"
  by (simp add: mat_eval)

lemma Zero_v_stack: "Zero_v 12 = stack (\<lambda>i. 0) (\<lambda>i. 0)"
  by (simp add: mat_eval)

lemma Zero_v_tab6: "Zero_v 6 = tab6 (\<lambda>i. 0)"
  by (simp add: mat_eval)

lemma length_stack: "length (stack x v) = 12"
  by (simp add: mat_eval)

lemma time_update_state:
  assumes "transition_matrix k = blocks_2x2 (\<lambda>i. 1) (\<lambda>i. t) (\<lambda>i. 0) (\<lambda>i. 1)"
    and "state k = stack x v"
  shows "state_prior (KalmanFilter_time_update k) = stack (\<lambda>i. x i + t * v i) v"
  by (simp add: time_update_eq assms mat_vec_2x2)

lemma measurement_update_state:
  assumes inv: "inverts_positive_diagonals inverse_m"
    and H: "measurement_matrix k = blocks_1x2 (\<lambda>i. 1) (\<lambda>i. 0)"
    and R: "measurement_noise_cov k = diag6 r"
    and P: "state_cov_prior k = blocks_2x2 a b b d"
    and pos: "\<And>i. i < 6 \<Longrightarrow> 0 < a i + r i"
    and x: "state_prior k = stack x v"
  shows "state (KalmanFilter_measurement_update inverse_m k (tab6 z)) =
           stack (\<lambda>i. x i + a i / (a i + r i) * (z i - x i))
                 (\<lambda>i. v i + b i / (a i + r i) * (z i - x i))"
proof -
  have K: "kalman_gain (KalmanFilter_measurement_update inverse_m k (tab6 z)) =
           blocks_2x1 (\<lambda>i. a i / (a i + r i)) (\<lambda>i. b i / (a i + r i))"
    by (rule measurement_update_gain [OF inv H R P pos])
  have "state (KalmanFilter_measurement_update inverse_m k (tab6 z)) =
          vec_add (state_prior k)
            (mat_vec (kalman_gain (KalmanFilter_measurement_update inverse_m k (tab6 z)))
               (vec_sub (tab6 z) (mat_vec (measurement_matrix k) (state_prior k))))"
    by (simp add: measurement_update_eq Let_def)
  then show ?thesis
    by (simp add: K H x mat_vec_1x2 vec_sub_tab6 mat_vec_2x1 vec_add_stack)
qed

lemma inverse_diagonal_ok: "inverts_positive_diagonals inverse_diagonal"
  by (simp add: inverts_positive_diagonals_def inverse_diagonal_diag6)

lemma example_noise: "noise_variances example_settings = (\<lambda>i. 1)"
  by (rule ext) (simp add: noise_variances_def example_settings_def)

lemma example_positive_noise: "positive_noise example_settings"
  by (simp add: positive_noise_def example_settings_def)

lemma filter_running_sliders:
  assumes "\<not> first_run st" and "\<not> sliders_changed s st"
  shows "prev_slider_pos (fst (FTNoIR_Filter_filter inverse_m s t1 t2 st input_buf output_buf)) =
           prev_slider_pos st"
  using assms
  by (simp add: FTNoIR_Filter_filter_def check_sliders_def Let_def update_deadzone_size_def
      do_kalman_filter_def fill_transition_matrix_def)

lemma example_warm_fields:
  "kf example_warm = reset_kf example_settings"
  "kf_adaptive_process_noise_cov example_warm =
     \<lparr>base_cov = process_noise_blocks example_settings 0.03, innovation_cov_estimate = Zero_m 6 6\<rparr>"
  "dz_filter example_warm = \<lparr>last_output = Zero_v 6, dz_size = Zero_v 6\<rparr>"
  "last_input example_warm = Zero_v 6"
  "dt_since_last_input example_warm = 0"
  "minimal_state_var example_warm = Constant_v 6 DBL_MAX"
  "timer example_warm = \<lparr>started_at = 0\<rparr>"
  "prev_slider_pos example_warm = (75, 75)"
  by (simp_all add: example_warm_eq FTNoIR_Filter_new_def reset_kf reset_scaler reset_dz_filter
      reset_last_input example_raw_last_input reset_dt_since_last_input reset_minimal_state_var
      reset_prev_slider_pos example_settings_def)

lemma example_warm_not_new: "\<not> new_measurement example_warm [0, 0, 0, 0, 0, 0]"
  by (simp add: new_measurement_def example_warm_fields cwiseNotEqual_any_def map_pose_def
      Zero_v_def eval_nat_numeral)

lemma example_idle_kalman:
  "running_tick_kalman inverse_diagonal example_settings 1 1 example_warm [0, 0, 0, 0, 0, 0] =
     example_warm\<lparr>dt_since_last_input := 1, timer := \<lparr>started_at = 1\<rparr>\<rparr>"
  using example_warm_not_new
  by (simp add: running_tick_kalman_def do_kalman_filter_def Let_def example_warm_fields
      Timer_elapsed_seconds_def Timer_start_const)

lemma example_noise_diagonal: "noise_diagonal example_settings t = (\<lambda>i. t / 4)"
  by (rule ext) (simp add: noise_diagonal_def example_settings_def)

lemma example_variance:
  "head 6 (diagonal (state_cov (reset_kf example_settings))) = tab6 (\<lambda>i. 3 / 400)"
  by (simp add: reset_kf_def process_noise_blocks_def diagonal_2x2 head_stack
      example_noise_diagonal)

lemma example_idle_fields:
  "kf example_idle = reset_kf example_settings"
  "kf_adaptive_process_noise_cov example_idle =
     \<lparr>base_cov = process_noise_blocks example_settings 0.03, innovation_cov_estimate = Zero_m 6 6\<rparr>"
  "last_input example_idle = Zero_v 6"
  "dt_since_last_input example_idle = 1"
  "minimal_state_var example_idle = tab6 (\<lambda>i. 3 / 400)"
  "timer example_idle = \<lparr>started_at = 1\<rparr>"
  "prev_slider_pos example_idle = (75, 75)"
  "\<not> first_run example_idle"
  unfolding example_idle_def
    filter_running_fields [OF example_warm_running]
    filter_running_frame [OF example_warm_running]
    filter_running_sliders [OF example_warm_running]
    example_idle_kalman
  using example_warm_not_new
  by (simp_all add: example_warm_fields example_variance Timer_elapsed_seconds_def)
     (simp add: cwiseMin_def Constant_v_def tab6_def DBL_MAX_def eval_nat_numeral upt_rec)

lemma example_idle_running:
  "\<not> first_run example_idle" "\<not> sliders_changed example_settings example_idle"
  by (simp_all add: example_idle_fields sliders_changed_def example_settings_def)

lemma example_idle_last_output: "last_output (dz_filter example_idle) = Zero_v 6"
proof -
  have "12 = length (state (kf (running_tick_kalman inverse_diagonal example_settings 1 1
                example_warm [0, 0, 0, 0, 0, 0])))"
    by (simp add: example_idle_kalman example_warm_fields reset_kf_def Zero_v_def)
  from filter_running_output [OF example_warm_running _ this, of "[0, 0, 0, 0, 0, 0]"]
  show ?thesis
    unfolding example_idle_def
    by (simp add: example_warm_fields example_idle_kalman reset_kf_def Zero_v_def head_def
        deadzone_axis_rest eval_nat_numeral upt_rec)
qed

lemma example_idle_new: "new_measurement example_idle [1, 0, 0, 0, 0, 0]"
  by (simp add: new_measurement_def example_idle_fields cwiseNotEqual_any_def map_pose_def
      Zero_v_def eval_nat_numeral)

lemma example_pose: "map_pose [1, 0, 0, 0, 0, 0] = tab6 (\<lambda>i. if i = 0 then 1 else 0)"
  by (simp add: map_pose_def tab6_def eval_nat_numeral upt_rec)

lemma example_moved_kalman:
  "state (kf (running_tick_kalman inverse_diagonal example_settings 2 2 example_idle
                [1, 0, 0, 0, 0, 0])) =
     stack (\<lambda>i. if i = 0 then 319 / 819 else 0) (\<lambda>i. if i = 0 then 22 / 117 else 0)"
  "head 6 (diagonal (state_cov (kf (running_tick_kalman inverse_diagonal example_settings 2 2
                example_idle [1, 0, 0, 0, 0, 0])))) = tab6 (\<lambda>i. 319 / 819)"
proof -
  define k1 where "k1 = fold (\<lambda>i k. k\<lparr>transition_matrix :=
                             set_elem (transition_matrix k) i (i + 6) 2\<rparr>)
                      [0..<6] (reset_kf example_settings)"
  define sc2 where "sc2 = \<lparr>base_cov = fill_process_noise_cov_matrix example_settings
                               (process_noise_blocks example_settings 0.03) 2,
                            innovation_cov_estimate = Zero_m 6 6\<rparr>"
  define k2 where "k2 = snd (KalmanProcessNoiseScaler_update example_settings sc2 k1 2)"
  define k3 where "k3 = KalmanFilter_time_update k2"
  define k4 where "k4 = KalmanFilter_measurement_update inverse_diagonal k3
                          (tab6 (\<lambda>i. if i = 0 then 1 else 0))"
  have rt: "kf (running_tick_kalman inverse_diagonal example_settings 2 2 example_idle
                  [1, 0, 0, 0, 0, 0]) = k4"
    using example_idle_new
    by (simp add: running_tick_kalman_def do_kalman_filter_kf example_idle_fields
        Timer_elapsed_seconds_def k4_def k3_def k2_def sc2_def k1_def example_pose)
  have k1: "k1 = (reset_kf example_settings)\<lparr>transition_matrix :=
                    blocks_2x2 (\<lambda>i. 1) (\<lambda>i. 2) (\<lambda>i. 0) (\<lambda>i. 1)\<rparr>"
    unfolding k1_def by (rule fill_transition_blocks) (simp add: reset_kf_def)
  have b2: "base_cov sc2 = process_noise_blocks example_settings 2"
    by (simp add: sc2_def process_noise_blocks_def fill_process_noise_2x2)
  have alpha: "update_alpha
      (update_T1 (sc2\<lparr>innovation_cov_estimate := update_estimate example_settings sc2 k1 2\<rparr>) k1)
      (update_T2 k1) = 0.001"
    by (simp add: update_alpha_def update_T1_def update_estimate_def Let_def k1 sc2_def
        reset_kf_def example_noise)
       (simp add: mat_eval)
  have Q2: "process_noise_cov k2 =
              blocks_2x2 (\<lambda>i. 1 / 2000) (\<lambda>i. 1 / 2000) (\<lambda>i. 1 / 2000) (\<lambda>i. 1 / 100)"
    by (simp add: k2_def scaler_update_fields alpha b2 process_noise_blocks_def smult_2x2
        example_noise_diagonal)
  have F2: "transition_matrix k2 = blocks_2x2 (\<lambda>i. 1) (\<lambda>i. 2) (\<lambda>i. 0) (\<lambda>i. 1)"
    and H2: "measurement_matrix k2 = blocks_1x2 (\<lambda>i. 1) (\<lambda>i. 0)"
    and R2: "measurement_noise_cov k2 = diag6 (\<lambda>i. 1)"
    and P2: "state_cov k2 = blocks_2x2 (\<lambda>i. 3 / 400) (\<lambda>i. 3 / 400) (\<lambda>i. 3 / 400) (\<lambda>i. 3 / 20)"
    and x2: "state k2 = stack (\<lambda>i. 0) (\<lambda>i. 0)"
    by (simp_all add: k2_def KalmanProcessNoiseScaler_update_def Let_def k1 reset_kf_def
        example_noise process_noise_blocks_def example_noise_diagonal Zero_v_stack)
  have Pp3: "state_cov_prior k3 =
               blocks_2x2 (\<lambda>i. 319 / 500) (\<lambda>i. 77 / 250) (\<lambda>i. 77 / 250) (\<lambda>i. 4 / 25)"
    unfolding k3_def time_update_blocks [OF F2 P2 Q2] by simp
  have xp3: "state_prior k3 = stack (\<lambda>i. 0) (\<lambda>i. 0)"
    unfolding k3_def time_update_state [OF F2 x2] by simp
  have H3: "measurement_matrix k3 = blocks_1x2 (\<lambda>i. 1) (\<lambda>i. 0)"
    and R3: "measurement_noise_cov k3 = diag6 (\<lambda>i. 1)"
    using H2 R2 by (simp_all add: k3_def time_update_frame)
  have P4: "state_cov k4 =
              blocks_2x2 (\<lambda>i. 319 / 819) (\<lambda>i. 22 / 117) (\<lambda>i. 22 / 117) (\<lambda>i. 1493 / 14625)"
    using measurement_update_blocks [OF inverse_diagonal_ok H3 R3 Pp3,
        where z = "tab6 (\<lambda>i. if i = 0 then 1 else 0)"]
    by (simp add: k4_def)
  have x4: "state k4 = stack (\<lambda>i. if i = 0 then 319 / 819 else 0) (\<lambda>i. if i = 0 then 22 / 117 else 0)"
    using measurement_update_state [OF inverse_diagonal_ok H3 R3 Pp3 _ xp3,
        where z = "\<lambda>i. if i = 0 then 1 else 0"]
    by (simp add: k4_def stack_def tab6_def)
  show "state (kf (running_tick_kalman inverse_diagonal example_settings 2 2 example_idle
                [1, 0, 0, 0, 0, 0])) =
     stack (\<lambda>i. if i = 0 then 319 / 819 else 0) (\<lambda>i. if i = 0 then 22 / 117 else 0)"
    by (simp add: rt x4)
  show "head 6 (diagonal (state_cov (kf (running_tick_kalman inverse_diagonal example_settings 2 2
                example_idle [1, 0, 0, 0, 0, 0])))) = tab6 (\<lambda>i. 319 / 819)"
    by (simp add: rt P4 diagonal_2x2 head_stack)
qed

lemma example_moved_fields:
  "kf example_moved = kf (running_tick_kalman inverse_diagonal example_settings 2 2 example_idle
                            [1, 0, 0, 0, 0, 0])"
  "last_input example_moved = map_pose [1, 0, 0, 0, 0, 0]"
  "minimal_state_var example_moved = tab6 (\<lambda>i. 3 / 400)"
  "prev_slider_pos example_moved = (75, 75)"
  "\<not> first_run example_moved"
  unfolding example_moved_def
    filter_running_fields [OF example_idle_running]
    filter_running_frame [OF example_idle_running]
    filter_running_sliders [OF example_idle_running]
  using example_idle_new
  by (simp_all add: example_idle_fields example_moved_kalman)
     (simp add: cwiseMin_def tab6_def eval_nat_numeral upt_rec)

lemma example_moved_running:
  "\<not> first_run example_moved" "\<not> sliders_changed example_settings example_moved"
  by (simp_all add: example_moved_fields sliders_changed_def example_settings_def)

lemma example_moved_output:
  "map_pose (snd (FTNoIR_Filter_filter inverse_diagonal example_settings 2 2 example_idle
                    [1, 0, 0, 0, 0, 0] [0, 0, 0, 0, 0, 0])) ! 0 =
     deadzone_axis example_settings (sqrt (319 / 819 - 3 / 400) * 2) 0 (319 / 819)"
  "last_output (dz_filter example_moved) =
     map_pose (snd (FTNoIR_Filter_filter inverse_diagonal example_settings 2 2 example_idle
                      [1, 0, 0, 0, 0, 0] [0, 0, 0, 0, 0, 0]))"
  "length (last_output (dz_filter example_moved)) = 6"
proof -
  have len: "12 = length (state (kf (running_tick_kalman inverse_diagonal example_settings 2 2
                example_idle [1, 0, 0, 0, 0, 0])))"
    by (simp add: example_moved_kalman length_stack)
  have lo: "length (last_output (dz_filter example_idle)) = 6"
    by (simp add: example_idle_last_output Zero_v_def)
  note out = filter_running_output [OF example_idle_running lo len, of "[0, 0, 0, 0, 0, 0]"]
  have dz: "dz_size (dz_filter (fst (FTNoIR_Filter_filter inverse_diagonal example_settings 2 2
                example_idle [1, 0, 0, 0, 0, 0] [0, 0, 0, 0, 0, 0]))) ! 0 =
              sqrt (319 / 819 - 3 / 400) * 2"
    unfolding filter_running_fields(3) [OF example_idle_running]
    by (simp add: example_moved_kalman example_idle_fields)
       (simp add: cwiseMin_def vec_sub_def cwiseSqrt_def vec_scale_def tab6_def
          eval_nat_numeral upt_rec example_settings_def)
  show "map_pose (snd (FTNoIR_Filter_filter inverse_diagonal example_settings 2 2 example_idle
                    [1, 0, 0, 0, 0, 0] [0, 0, 0, 0, 0, 0])) ! 0 =
     deadzone_axis example_settings (sqrt (319 / 819 - 3 / 400) * 2) 0 (319 / 819)"
    unfolding out(1)
    by (simp add: dz example_idle_last_output example_moved_kalman head_stack)
       (simp add: Zero_v_def tab6_def eval_nat_numeral upt_rec)
  show "last_output (dz_filter example_moved) =
     map_pose (snd (FTNoIR_Filter_filter inverse_diagonal example_settings 2 2 example_idle
                      [1, 0, 0, 0, 0, 0] [0, 0, 0, 0, 0, 0]))"
    unfolding example_moved_def by (rule out(2))
  then show "length (last_output (dz_filter example_moved)) = 6"
    by (simp add: out(1))
qed

lemma example_moved_pose: "head 6 (state (kf example_moved)) ! 0 = 319 / 819"
  by (simp add: example_moved_fields example_moved_kalman head_stack)
     (simp add: tab6_def eval_nat_numeral upt_rec)

lemma example_deadzone_positive: "(0::real) < sqrt (319 / 819 - 3 / 400) * 2"
  by simp

lemma example_hold_output:
  "map_pose (snd (FTNoIR_Filter_filter inverse_diagonal example_settings 3 3 example_moved
                    [1, 0, 0, 0, 0, 0] [0, 0, 0, 0, 0, 0])) ! 0 =
     deadzone_axis example_settings (sqrt (319 / 819 - 3 / 400) * 2)
       (deadzone_axis example_settings (sqrt (319 / 819 - 3 / 400) * 2) 0 (319 / 819))
       (319 / 819)"
proof -
  have li: "map_pose [1, 0, 0, 0, 0, 0] = last_input example_moved"
    by (simp add: example_moved_fields)
  have len: "length (state (kf example_moved)) = 12"
    by (simp add: example_moved_fields example_moved_kalman length_stack)
  have nm: "\<not> new_measurement example_moved [1, 0, 0, 0, 0, 0]"
    by (simp add: new_measurement_def example_moved_fields cwiseNotEqual_any_iff)
  have dz: "dz_size (dz_filter (fst (FTNoIR_Filter_filter inverse_diagonal example_settings 3 3
                example_moved [1, 0, 0, 0, 0, 0] [0, 0, 0, 0, 0, 0]))) ! 0 =
              sqrt (319 / 819 - 3 / 400) * 2"
    unfolding filter_running_fields(3) [OF example_moved_running]
      running_tick_not_new [OF nm]
    by (simp add: example_moved_fields example_moved_kalman)
       (simp add: cwiseMin_def vec_sub_def cwiseSqrt_def vec_scale_def tab6_def
          eval_nat_numeral upt_rec example_settings_def)
  from repeated_input_tick [OF example_moved_running li example_moved_output(3) len,
      where inverse_m = inverse_diagonal and ?t1.0 = 3 and ?t2.0 = 3
        and output_buf = "[0, 0, 0, 0, 0, 0]" and st' = example_moved
        and z = "[1, 0, 0, 0, 0, 0]" and dt = 1]
  have "map_pose (snd (FTNoIR_Filter_filter inverse_diagonal example_settings 3 3 example_moved
                    [1, 0, 0, 0, 0, 0] [0, 0, 0, 0, 0, 0])) ! 0 =
        deadzone_axis example_settings
          (dz_size (dz_filter (fst (FTNoIR_Filter_filter inverse_diagonal example_settings 3 3
                example_moved [1, 0, 0, 0, 0, 0] [0, 0, 0, 0, 0, 0]))) ! 0)
          (last_output (dz_filter example_moved) ! 0) (head 6 (state (kf example_moved)) ! 0)"
    by (simp add: Let_def)
  then show ?thesis
    by (simp add: dz example_moved_output example_moved_pose)
qed

text \<open>
  C5, as the claim states it, fails on its last part.  At the fourth call of the example run
  the input equals the stored last input and the tick is not the first, yet the pose that
  \<^verbatim>\<open>FTNoIR_Filter::filter\<close> returns is neither the previous filtered pose of the Kalman
  filter nor the pose the previous call returned: the deadzone of axis 0 is positive and the
  deadzone filter moves the output from the previous output towards the Kalman pose.
\<close>

theorem repeated_input_output_counterexample:
  "\<not> first_run example_moved \<and>
   \<not> sliders_changed example_settings example_moved \<and>
   map_pose [1, 0, 0, 0, 0, 0] = last_input example_moved \<and>
   map_pose (snd (FTNoIR_Filter_filter inverse_diagonal example_settings 3 3 example_moved
                    [1, 0, 0, 0, 0, 0] [0, 0, 0, 0, 0, 0])) \<noteq>
     head 6 (state (kf example_moved)) \<and>
   map_pose (snd (FTNoIR_Filter_filter inverse_diagonal example_settings 3 3 example_moved
                    [1, 0, 0, 0, 0, 0] [0, 0, 0, 0, 0, 0])) \<noteq>
     map_pose (snd (FTNoIR_Filter_filter inverse_diagonal example_settings 2 2 example_idle
                      [1, 0, 0, 0, 0, 0] [0, 0, 0, 0, 0, 0]))"
proof -
  define dz :: real where "dz = sqrt (319 / 819 - 3 / 400) * 2"
  define u where "u = deadzone_axis example_settings dz 0 (319 / 819)"
  have dz: "0 < dz"
    unfolding dz_def by (rule example_deadzone_positive)
  have u: "u \<noteq> 319 / 819"
    unfolding u_def by (rule deadzone_axis_strict(2) [OF dz]) simp
  then have "319 / 819 \<noteq> u" by simp
  note w = deadzone_axis_strict [OF dz this, of example_settings]
  have a: "map_pose (snd (FTNoIR_Filter_filter inverse_diagonal example_settings 3 3 example_moved
                    [1, 0, 0, 0, 0, 0] [0, 0, 0, 0, 0, 0])) ! 0 \<noteq>
           head 6 (state (kf example_moved)) ! 0"
    using w(2) by (simp add: example_hold_output example_moved_pose dz_def u_def)
  have b: "map_pose (snd (FTNoIR_Filter_filter inverse_diagonal example_settings 3 3 example_moved
                    [1, 0, 0, 0, 0, 0] [0, 0, 0, 0, 0, 0])) ! 0 \<noteq>
           map_pose (snd (FTNoIR_Filter_filter inverse_diagonal example_settings 2 2 example_idle
                      [1, 0, 0, 0, 0, 0] [0, 0, 0, 0, 0, 0])) ! 0"
    using w(1) by (simp add: example_hold_output example_moved_output(1) dz_def u_def)
  show ?thesis
    using a b example_moved_running by (auto simp: example_moved_fields)
qed

theorem repeated_input_skips_kalman_step_witness:
  "\<not> first_run example_moved \<and>
   \<not> sliders_changed example_settings example_moved \<and>
   map_pose [1, 0, 0, 0, 0, 0] = last_input example_moved \<and>
   length (last_output (dz_filter example_moved)) = 6 \<and>
   length (state (kf example_moved)) = 12 \<and>
   kf (fst (FTNoIR_Filter_filter inverse_diagonal example_settings 3 3 example_moved
              [1, 0, 0, 0, 0, 0] [0, 0, 0, 0, 0, 0])) = kf example_moved \<and>
   map_pose (snd (FTNoIR_Filter_filter inverse_diagonal example_settings 3 3 example_moved
                    [1, 0, 0, 0, 0, 0] [0, 0, 0, 0, 0, 0])) ! 1 = 0"
proof -
  have li: "map_pose [1, 0, 0, 0, 0, 0] = last_input example_moved"
    by (simp add: example_moved_fields)
  have len: "length (state (kf example_moved)) = 12"
    by (simp add: example_moved_fields example_moved_kalman length_stack)
  have p1: "head 6 (state (kf example_moved)) ! 1 = 0"
    by (simp add: example_moved_fields example_moved_kalman head_stack)
       (simp add: tab6_def eval_nat_numeral upt_rec)
  have l1: "last_output (dz_filter example_moved) ! 1 = 0"
  proof -
    have len': "12 = length (state (kf (running_tick_kalman inverse_diagonal example_settings 2 2
                example_idle [1, 0, 0, 0, 0, 0])))"
      by (simp add: example_moved_kalman length_stack)
    have lo: "length (last_output (dz_filter example_idle)) = 6"
      by (simp add: example_idle_last_output Zero_v_def)
    have "head 6 (state (kf (running_tick_kalman inverse_diagonal example_settings 2 2
                example_idle [1, 0, 0, 0, 0, 0]))) ! 1 = 0"
      using p1 by (simp add: example_moved_fields)
    then show ?thesis
      unfolding example_moved_output(2)
        filter_running_output(1) [OF example_idle_running lo len', of "[0, 0, 0, 0, 0, 0]"]
      by (simp add: example_idle_last_output Zero_v_def deadzone_axis_rest)
  qed
  show ?thesis
    using repeated_input_skips_kalman_step [OF example_moved_running li example_moved_output(3) len,
        where inverse_m = inverse_diagonal and ?t1.0 = 3 and ?t2.0 = 3
          and output_buf = "[0, 0, 0, 0, 0, 0]" and st' = example_moved
          and z = "[1, 0, 0, 0, 0, 0]" and dt = 1]
      example_moved_running li example_moved_output(3) len
    by (simp add: Let_def p1 [unfolded One_nat_def] l1 [unfolded One_nat_def] deadzone_axis_rest)
qed

lemma example_calls_state:
  "filter_calls inverse_diagonal (FTNoIR_Filter_new example_settings example_raw) example_calls =
     example_moved"
  by (simp add: filter_calls_def example_calls_def example_moved_def example_idle_def
      example_warm_def)

theorem state_cov_stays_symmetric_witness:
  "inverts_positive_diagonals inverse_diagonal \<and>
   positive_noise example_settings \<and>
   list_all (\<lambda>c. positive_noise (call_settings c)) example_calls \<and>
   sorted (clock_readings example_calls) \<and>
   symmetric_m 12 (state_cov (kf example_moved)) \<and>
   symmetric_m 12 (state_cov_prior (kf example_moved))"
proof -
  have a: "\<forall>c \<in> set example_calls. positive_noise (call_settings c)"
    by (simp add: example_calls_def example_positive_noise)
  have b: "sorted (clock_readings example_calls)"
    by (simp add: example_calls_def clock_readings_def)
  show ?thesis
    using state_cov_stays_symmetric [OF inverse_diagonal_ok example_positive_noise a b,
        of example_raw] a b inverse_diagonal_ok example_positive_noise
    by (simp add: example_calls_state list_all_iff)
qed

end
